theory Spec2Isabelle
  imports Complex_Main "HOL-Library.Log_Nat"
begin

section \<open>Python strings\<close>

text \<open>
  A Python \<open>str\<close> is a sequence of Unicode code points, so a string is a list of code
  points (natural numbers). The icons of the program are single code points beyond
  the ASCII range. ASCII literals are written through \<open>lit\<close>.
\<close>

type_synonym ustr = "nat list"

abbreviation lit :: "string \<Rightarrow> ustr" where
  "lit s \<equiv> map of_char s"

text \<open>
  \<open>str.strip()\<close> without argument removes leading and trailing whitespace; the
  whitespace code points are those of CPython's \<open>str.isspace\<close>.
\<close>

definition is_space :: "nat \<Rightarrow> bool" where
  "is_space c \<longleftrightarrow>
     (9 \<le> c \<and> c \<le> 13) \<or> (28 \<le> c \<and> c \<le> 32) \<or> c = 133 \<or> c = 160 \<or> c = 5760 \<or>
     (8192 \<le> c \<and> c \<le> 8202) \<or> c = 8232 \<or> c = 8233 \<or> c = 8239 \<or> c = 8287 \<or>
     c = 12288"

definition strip :: "ustr \<Rightarrow> ustr" where
  "strip s = rev (dropWhile is_space (rev (dropWhile is_space s)))"

text \<open>\<open>s.split('\n')\<close>: the pieces between line feeds; never an empty list.\<close>

fun split_nl :: "ustr \<Rightarrow> ustr list" where
  "split_nl [] = [[]]"
| "split_nl (c # cs) =
     (if c = 10 then [] # split_nl cs
      else (case split_nl cs of [] \<Rightarrow> [[c]] | l # ls \<Rightarrow> (c # l) # ls))"

definition startswith :: "ustr \<Rightarrow> ustr \<Rightarrow> bool" where
  "startswith s p \<longleftrightarrow> take (length p) s = p"

text \<open>
  \<open>s.replace(old, new)\<close> replaces the non-overlapping occurrences of \<open>old\<close> from left
  to right. With an empty \<open>old\<close> Python puts \<open>new\<close> before every character and at
  the end.
\<close>

function replace_from :: "ustr \<Rightarrow> ustr \<Rightarrow> ustr \<Rightarrow> ustr" where
  "replace_from old new [] = []"
| "replace_from old new (c # cs) =
     (if old \<noteq> [] \<and> startswith (c # cs) old
      then new @ replace_from old new (drop (length old) (c # cs))
      else c # replace_from old new cs)"
  by pat_completeness auto
termination
  by (relation "measure (\<lambda>(old, new, s). length s)") simp_all

definition replace :: "ustr \<Rightarrow> ustr \<Rightarrow> ustr \<Rightarrow> ustr" where
  "replace s old new =
     (if old = [] then new @ concat (map (\<lambda>c. c # new) s) else replace_from old new s)"

text \<open>\<open>sep.join(parts)\<close>.\<close>

fun join :: "ustr \<Rightarrow> ustr list \<Rightarrow> ustr" where
  "join sep [] = []"
| "join sep [x] = x"
| "join sep (x # y # ys) = x @ sep @ join sep (y # ys)"

section \<open>Numbers: integers, binary64 floats and their formatting\<close>

text \<open>
  \<open>format_size\<close> starts with an \<open>int\<close> and, after the first \<open>size /= 1024\<close>, holds a
  \<open>float\<close>. A finite IEEE 754 binary64 value is modelled by the rational number it
  denotes; every operation rounds its exact result to the nearest binary64 value,
  ties to the even significand (\<open>rne\<close>). A result of magnitude \<open>2 ^ 1024\<close> or more
  does not fit: converting or dividing an \<open>int\<close> then raises \<open>OverflowError\<close>.

  An \<open>error\<close> is an exception of class \<open>Exception\<close>: the \<open>OverflowError\<close> of the
  arithmetic, or an exception raised by a call into a library or a service outside
  the program, named by a text.
\<close>

datatype error = OverflowError | Raised ustr

datatype pynum = PyInt int | PyFloat rat

definition round_half_even :: "rat \<Rightarrow> int" where
  "round_half_even y =
     (let f = \<lfloor>y\<rfloor>; d = y - of_int f
      in if d < 1 / 2 then f
         else if 1 / 2 < d then f + 1
         else if even f then f else f + 1)"

text \<open>For \<open>0 < x\<close>, the integer \<open>l\<close> with \<open>2 powi l \<le> x < 2 powi (l + 1)\<close>.\<close>

definition floorlog2 :: "rat \<Rightarrow> int" where
  "floorlog2 x =
     (let d = bitlen (fst (quotient_of x)) - bitlen (snd (quotient_of x))
      in if 2 powi d \<le> x then d else d - 1)"

definition rne :: "rat \<Rightarrow> rat" where
  "rne x =
     (if x = 0 then 0
      else let e = max (floorlog2 \<bar>x\<bar>) (- 1022) - 52;
               m = round_half_even (\<bar>x\<bar> / 2 powi e)
           in sgn x * of_int m * 2 powi e)"

definition to_double :: "rat \<Rightarrow> error + rat" where
  "to_double x = (let r = rne x in if 2 ^ 1024 \<le> \<bar>r\<bar> then Inl OverflowError else Inr r)"

text \<open>\<open>size < 1024\<close>.\<close>

fun lt_1024 :: "pynum \<Rightarrow> bool" where
  "lt_1024 (PyInt n) \<longleftrightarrow> n < 1024"
| "lt_1024 (PyFloat x) \<longleftrightarrow> x < 1024"

text \<open>
  \<open>size / 1024\<close>. For an \<open>int\<close> this is true division: the correctly rounded quotient,
  or \<open>OverflowError\<close>. For a \<open>float\<close> it is the IEEE division by \<open>1024.0\<close>, whose
  result is no larger in magnitude than the dividend, so it stays finite.
\<close>

fun truediv_1024 :: "pynum \<Rightarrow> error + pynum" where
  "truediv_1024 (PyInt n) =
     (case to_double (of_int n / 1024) of Inl e \<Rightarrow> Inl e | Inr r \<Rightarrow> Inr (PyFloat r))"
| "truediv_1024 (PyFloat x) = Inr (PyFloat (rne (x / 1024)))"

text \<open>The decimal digits of a non-negative integer, as code points.\<close>

function digits :: "int \<Rightarrow> ustr" where
  "digits n = (if n < 10 then [nat (48 + n)] else digits (n div 10) @ [nat (48 + n mod 10)])"
  by pat_completeness simp
termination
  by (relation "measure nat") simp_all

declare digits.simps [simp del]

text \<open>
  \<open>f"{x:.2f}"\<close> for a float: the exact value rounded to two decimals, ties to even,
  with all digits of the integer part and a sign for a negative value.
\<close>

definition format_2f :: "rat \<Rightarrow> ustr" where
  "format_2f x =
     (let q = round_half_even (\<bar>x\<bar> * 100)
      in (if x < 0 then lit ''-'' else []) @ digits (q div 100) @ lit ''.'' @
         [nat (48 + q mod 100 div 10), nat (48 + q mod 10)])"

text \<open>\<open>f"{size:.2f}"\<close>: an \<open>int\<close> is converted to \<open>float\<close> first.\<close>

fun fmt_2f :: "pynum \<Rightarrow> error + ustr" where
  "fmt_2f (PyInt n) =
     (case to_double (of_int n) of Inl e \<Rightarrow> Inl e | Inr r \<Rightarrow> Inr (format_2f r))"
| "fmt_2f (PyFloat x) = Inr (format_2f x)"

section \<open>The size formatter\<close>

text \<open>
  The loop of \<open>format_size\<close> over the units that remain, with the running value;
  when the units are exhausted the value is shown in PB.
\<close>

fun format_size_loop :: "ustr list \<Rightarrow> pynum \<Rightarrow> error + ustr" where
  "format_size_loop [] sz = map_sum id (\<lambda>v. v @ lit '' PB'') (fmt_2f sz)"
| "format_size_loop (unit # units) sz =
     (if lt_1024 sz then map_sum id (\<lambda>v. v @ lit '' '' @ unit) (fmt_2f sz)
      else (case truediv_1024 sz of
              Inl e \<Rightarrow> Inl e
            | Inr sz' \<Rightarrow> format_size_loop units sz'))"

definition UNITS :: "ustr list" where
  "UNITS = [lit ''B'', lit ''KB'', lit ''MB'', lit ''GB'', lit ''TB'']"

definition format_size :: "int \<Rightarrow> error + ustr" where
  "format_size sz = format_size_loop UNITS (PyInt sz)"

section \<open>The report formatter\<close>

text \<open>
  \<open>SECTION_ICONS\<close> is a dictionary whose iteration order is its insertion order, so
  it is an association list; \<open>icons_get\<close> is its \<open>.get(key, default)\<close>.
\<close>

definition SECTION_ICONS :: "(ustr \<times> ustr) list" where
  "SECTION_ICONS =
     [(lit ''General'', [0x1F5D2]),
      (lit ''Video'', [0x1F39E]),
      (lit ''Audio'', [0x1F50A]),
      (lit ''Text'', [0x1F520]),
      (lit ''Subtitle'', [0x1F520]),
      (lit ''Menu'', [0x1F5C3])]"

definition icons_get :: "ustr \<Rightarrow> ustr \<Rightarrow> ustr" where
  "icons_get k d = (case map_of SECTION_ICONS k of None \<Rightarrow> d | Some v \<Rightarrow> v)"

definition clean_value :: "ustr \<Rightarrow> ustr" where
  "clean_value v = replace (replace v (lit ''<'') (lit ''&lt;'')) (lit ''>'') (lit ''&gt;'')"

text \<open>The variables of \<open>parse_mediainfo\<close> that its loop updates.\<close>

record parse_state =
  html_parts :: "ustr list"
  current_section :: ustr
  section_content :: "ustr list"

text \<open>
  The four elements that a flush appends to \<open>html_parts\<close> (the same list at both
  places of the source): sub-heading with icon and display label, the opening of
  the preformatted block, the content lines joined by line feeds, and the closing
  with a break.
\<close>

definition section_block :: "ustr \<Rightarrow> ustr list \<Rightarrow> ustr list" where
  "section_block cur content =
     (let display_section =
            (if startswith cur (lit ''Text'')
             then replace cur (lit ''Text'') (lit ''Subtitle'') else cur)
      in [lit ''<h4>'' @ icons_get cur [0x1F4C4] @ lit '' '' @ display_section @ lit ''</h4>'',
          lit ''<pre>'',
          join [10] content,
          lit ''</pre><br>''])"

text \<open>
  The inner loop over \<open>SECTION_ICONS.items()\<close> for one stripped, non-empty line. At
  the first label that is a prefix of the line it flushes the open section (if
  any), opens the new one and stops; the result says whether the line was a
  section header.
\<close>

fun header_loop :: "(ustr \<times> ustr) list \<Rightarrow> ustr \<Rightarrow> parse_state \<Rightarrow> bool \<times> parse_state" where
  "header_loop [] line st = (False, st)"
| "header_loop ((section, emoji) # items) line st =
     (if startswith line section
      then (let line' = (if startswith line (lit ''Text'')
                         then replace line (lit ''Text'') (lit ''Subtitle'') else line);
                parts = (if current_section st \<noteq> []
                         then html_parts st @
                              section_block (current_section st) (section_content st)
                         else html_parts st)
            in (True, \<lparr>html_parts = parts, current_section = line', section_content = []\<rparr>))
      else header_loop items line st)"

text \<open>The body of the loop over the lines of the input.\<close>

definition process_line :: "parse_state \<Rightarrow> ustr \<Rightarrow> parse_state" where
  "process_line st raw =
     (let line = strip raw
      in if line = [] then st
         else (case header_loop SECTION_ICONS line st of
                 (is_section_header, st') \<Rightarrow>
                   if \<not> is_section_header \<and> current_section st' \<noteq> []
                   then st'\<lparr>section_content := section_content st' @ [clean_value line]\<rparr>
                   else st'))"

definition header_block :: "ustr \<Rightarrow> ustr \<Rightarrow> ustr list" where
  "header_block file_name size_text =
     [lit ''<h3>'' @ [0x1F4C1] @ lit '' File Information</h3>'',
      lit ''<p><strong>File Name:</strong> <em>'' @ clean_value file_name @ lit ''</em></p>'',
      lit ''<p><strong>File Size:</strong> <em>'' @ size_text @ lit ''</em></p>'',
      lit ''<hr>'']"

definition disclaimer :: ustr where
  "disclaimer = lit ''<p><em>Note: Analysis is based on initial portions of the file.</em></p>''"

text \<open>
  \<open>parse_mediainfo\<close>. The only failure is the one of \<open>format_size\<close>, raised while the
  header block is built, before the scan.
\<close>

definition parse_mediainfo :: "ustr \<Rightarrow> ustr \<Rightarrow> int \<Rightarrow> error + ustr" where
  "parse_mediainfo mediainfo_output file_name file_size =
     (case format_size file_size of
        Inl e \<Rightarrow> Inl e
      | Inr size_text \<Rightarrow>
          (let st = foldl process_line
                      \<lparr>html_parts = header_block file_name size_text,
                       current_section = [], section_content = []\<rparr>
                      (split_nl mediainfo_output);
               parts = (if current_section st \<noteq> [] \<and> section_content st \<noteq> []
                        then html_parts st @
                             section_block (current_section st) (section_content st)
                        else html_parts st)
           in Inr (join [10] (parts @ [disclaimer]))))"

section \<open>The pipeline and its collaborators\<close>

text \<open>
  The functions below call the chat platform, the file system, the analysis tool and
  the publishing service. Each such call is an \<open>event\<close>; what the outside world
  answers is given by an environment \<open>env\<close>. A computation yields the events it
  caused, in order, and either its value or the exception that left it. Coroutines
  are awaited one after the other, so the model is sequential. Only exceptions of
  class \<open>Exception\<close> are modelled (cancellation of the task is not).
\<close>

datatype event =
    Reply_text ustr
  | Edit_text ustr "(ustr \<times> ustr) option"
  | Log_error ustr "error option"
  | Log_warning ustr
  | Named_temporary_file
  | Open_file ustr
  | Next_chunk
  | Write_chunk "nat list"
  | Close_file
  | Exec_mediainfo ustr
  | Communicate
  | Create_page ustr ustr
  | Http_get ustr
  | Unlink ustr

record env =
  reply_text_result :: "error option"
  edit_text_result :: "ustr \<Rightarrow> error option"
  tempfile_result :: "error + ustr"
  open_result :: "error option"
  chunk_results :: "(error + nat list) list"
  write_result :: "nat list \<Rightarrow> error option"
  close_result :: "error option"
  exec_result :: "error option"
  communicate_result :: "error + nat list \<times> nat list"
  decode :: "nat list \<Rightarrow> error + ustr"
  create_page_result :: "error + (ustr \<times> ustr) list option"
  http_get_result :: "ustr \<Rightarrow> error + int"
  unlink_result :: "error option"

type_synonym 'a io = "event list \<times> (error + 'a)"

definition io_return :: "'a \<Rightarrow> 'a io" where
  "io_return a = ([], Inr a)"

text \<open>A pure computation that may raise.\<close>

definition lift :: "error + 'a \<Rightarrow> 'a io" where
  "lift r = ([], r)"

text \<open>A call to the outside, with the answer the environment gives.\<close>

definition io_call :: "event \<Rightarrow> error + 'a \<Rightarrow> 'a io" where
  "io_call ev r = ([ev], r)"

definition outcome :: "error option \<Rightarrow> error + unit" where
  "outcome r = (case r of None \<Rightarrow> Inr () | Some e \<Rightarrow> Inl e)"

definition io_bind :: "'a io \<Rightarrow> ('a \<Rightarrow> 'b io) \<Rightarrow> 'b io" where
  "io_bind m f =
     (case m of
        (t, Inl e) \<Rightarrow> (t, Inl e)
      | (t, Inr a) \<Rightarrow> (case f a of (t', r) \<Rightarrow> (t @ t', r)))"

text \<open>\<open>try: m  except Exception as e: h e\<close>.\<close>

definition try_except :: "'a io \<Rightarrow> (error \<Rightarrow> 'a io) \<Rightarrow> 'a io" where
  "try_except m h =
     (case m of
        (t, Inl e) \<Rightarrow> (case h e of (t', r) \<Rightarrow> (t @ t', r))
      | (t, Inr a) \<Rightarrow> (t, Inr a))"

text \<open>
  \<open>try: m  finally: f\<close>, also the exit of a \<open>with\<close> block: \<open>f\<close> runs however \<open>m\<close>
  ended; an exception of \<open>f\<close> replaces the outcome of \<open>m\<close>.
\<close>

definition try_finally :: "'a io \<Rightarrow> unit io \<Rightarrow> 'a io" where
  "try_finally m f =
     (case m of
        (t, r) \<Rightarrow> (case f of (t', Inl e) \<Rightarrow> (t @ t', Inl e) | (t', Inr u) \<Rightarrow> (t @ t', r)))"

definition log_error :: "ustr \<Rightarrow> error option \<Rightarrow> unit io" where
  "log_error msg e = io_call (Log_error msg e) (Inr ())"

definition log_warning :: "ustr \<Rightarrow> unit io" where
  "log_warning msg = io_call (Log_warning msg) (Inr ())"

text \<open>
  An attribute of an object as \<open>getattr(obj, name, default)\<close> sees it: missing (then
  \<open>getattr\<close> gives the default), present with the value \<open>None\<close>, or present with a
  value. The media objects of the chat library carry both attributes the program
  reads, with \<open>None\<close> where the platform gave nothing. The result of \<open>getattr\<close> is an
  option: \<open>None\<close> is Python's \<open>None\<close>.

  Objects of the library are truthy, so \<open>a or b\<close> is \<open>a\<close> unless \<open>a\<close> is \<open>None\<close>.
\<close>

datatype 'a attr = Missing | Is_None | Value 'a

record media =
  file_name :: "ustr attr"
  file_size :: "int attr"

datatype message =
  Message (document: "media option") (video: "media option") (audio: "media option")
    (reply_to_message: "message option")

definition py_or :: "'a option \<Rightarrow> 'a option \<Rightarrow> 'a option" where
  "py_or a b = (case a of None \<Rightarrow> b | Some x \<Rightarrow> Some x)"

definition getattr :: "'a attr \<Rightarrow> 'a \<Rightarrow> 'a option" where
  "getattr a d = (case a of Missing \<Rightarrow> Some d | Is_None \<Rightarrow> None | Value v \<Rightarrow> Some v)"

text \<open>
  The loop of \<open>stream_media\<close> over the chunks that the download yields, with the
  number of chunks written so far. An empty list is the end of the download.
\<close>

fun stream_loop :: "env \<Rightarrow> int \<Rightarrow> (error + nat list) list \<Rightarrow> int \<Rightarrow> unit io" where
  "stream_loop env limit [] downloaded_chunks = ([Next_chunk], Inr ())"
| "stream_loop env limit (Inl e # rest) downloaded_chunks = ([Next_chunk], Inl e)"
| "stream_loop env limit (Inr chunk # rest) downloaded_chunks =
     (case write_result env chunk of
        Some e \<Rightarrow> ([Next_chunk, Write_chunk chunk], Inl e)
      | None \<Rightarrow>
          if limit \<le> downloaded_chunks + 1 then ([Next_chunk, Write_chunk chunk], Inr ())
          else (case stream_loop env limit rest (downloaded_chunks + 1) of
                  (t, r) \<Rightarrow> (Next_chunk # Write_chunk chunk # t, r)))"

definition stream_media :: "env \<Rightarrow> message \<Rightarrow> ustr \<Rightarrow> int \<Rightarrow> ustr option io" where
  "stream_media env message temp_path limit =
     try_except
       (case py_or (py_or (document message) (video message)) (audio message) of
          None \<Rightarrow> io_return None
        | Some m \<Rightarrow>
            io_bind (io_call (Open_file temp_path) (outcome (open_result env)))
              (\<lambda>u. io_bind
                 (try_finally (stream_loop env limit (chunk_results env) 0)
                    (io_call Close_file (outcome (close_result env))))
                 (\<lambda>u. io_return (Some temp_path))))
       (\<lambda>e. io_bind (log_error (lit ''Error streaming media: '') (Some e))
          (\<lambda>u. io_return None))"

definition get_mediainfo :: "env \<Rightarrow> ustr \<Rightarrow> ustr io" where
  "get_mediainfo env file_path =
     try_except
       (io_bind (io_call (Exec_mediainfo file_path) (outcome (exec_result env)))
          (\<lambda>u. io_bind (io_call Communicate (communicate_result env))
             (\<lambda>(stdout, stderr).
                io_bind
                  (if stderr \<noteq> []
                   then io_bind (lift (decode env stderr))
                          (\<lambda>s. log_warning (lit ''MediaInfo stderr: '' @ s))
                   else io_return ())
                  (\<lambda>u. lift (decode env stdout)))))
       (\<lambda>e. io_bind (log_error (lit ''Error getting mediainfo: '') (Some e))
          (\<lambda>u. io_return []))"

definition create_telegraph_page :: "env \<Rightarrow> ustr \<Rightarrow> ustr \<Rightarrow> ustr option io" where
  "create_telegraph_page env title content =
     try_except
       (let clean_title = take 128 title
        in io_bind (io_call (Create_page clean_title content) (create_page_result env))
             (\<lambda>response.
                case (case response of
                        None \<Rightarrow> None
                      | Some d \<Rightarrow> if d = [] then None else map_of d (lit ''path'')) of
                  None \<Rightarrow>
                    io_bind (log_error (lit ''Invalid Telegraph response: '') None)
                      (\<lambda>u. io_return None)
                | Some path \<Rightarrow>
                    (let url = lit ''https://graph.org/'' @ path
                     in io_bind (io_call (Http_get url) (http_get_result env url))
                          (\<lambda>status.
                             if status \<noteq> 200
                             then io_bind
                                    (log_error (lit ''Created page not accessible: '') None)
                                    (\<lambda>u. io_return None)
                             else io_return (Some url)))))
       (\<lambda>e. io_bind (log_error (lit ''Error creating Telegraph page: '') (Some e))
          (\<lambda>u. io_return None))"

definition get_media_from_message :: "message \<Rightarrow> media option" where
  "get_media_from_message message =
     (case reply_to_message message of
        Some r \<Rightarrow> py_or (py_or (document r) (video r)) (audio r)
      | None \<Rightarrow> py_or (py_or (document message) (video message)) (audio message))"

text \<open>The texts that \<open>process_media\<close> shows to the requester.\<close>

definition processing_text :: ustr where
  "processing_text = [0x23F3] @ lit '' __Processing media info...__''"

definition no_media_text :: ustr where
  "no_media_text =
     [0x274C] @ lit '' __Please send a media file or reply to one with /mediainfo__''"

definition download_failed_text :: ustr where
  "download_failed_text = [0x274C] @ lit '' __Failed to download media sample!__''"

definition analyzing_text :: ustr where
  "analyzing_text = [0x1F50D] @ lit '' __Analyzing media info...__''"

definition analysis_failed_text :: ustr where
  "analysis_failed_text = [0x274C] @ lit '' __Failed to analyze media!__''"

definition generating_text :: ustr where
  "generating_text = [0x1F4DD] @ lit '' __Generating report...__''"

definition report_failed_text :: ustr where
  "report_failed_text = [0x274C] @ lit '' __Failed to generate report!__''"

definition unexpected_error_text :: ustr where
  "unexpected_error_text =
     [0x274C] @ lit '' __An error occurred while processing the media!__'' @ [10] @
     lit ''Please try again later.''"

definition report_text :: "ustr \<Rightarrow> ustr \<Rightarrow> ustr \<Rightarrow> ustr" where
  "report_text name size_text url =
     [0x1F4CA] @ lit '' **Media Information**'' @ [10, 10] @
     [0x1F4C1] @ lit '' **File:** `'' @ name @ lit ''`'' @ [10] @
     [0x1F4BE] @ lit '' **Size:** `'' @ size_text @ lit ''`'' @ [10, 10] @
     [0x1F449] @ lit '' **Detailed info:** '' @ url"

definition edit_text :: "env \<Rightarrow> ustr \<Rightarrow> (ustr \<times> ustr) option \<Rightarrow> unit io" where
  "edit_text env text button =
     io_call (Edit_text text button) (outcome (edit_text_result env text))"

text \<open>The \<open>finally\<close> block of \<open>process_media\<close>.\<close>

definition remove_temp :: "env \<Rightarrow> ustr \<Rightarrow> unit io" where
  "remove_temp env temp_path =
     try_except (io_call (Unlink temp_path) (outcome (unlink_result env)))
       (\<lambda>e. log_error (lit ''Error removing temp file: '') (Some e))"

text \<open>
  The calls of \<open>parse_mediainfo\<close> and \<open>format_size\<close> with the values that \<open>getattr\<close>
  gave. A name \<open>None\<close> has no \<open>replace\<close>: \<open>clean_value\<close> raises \<open>AttributeError\<close>, and it
  is called before \<open>format_size\<close>. A size \<open>None\<close> cannot be compared with 1024:
  \<open>format_size\<close> raises \<open>TypeError\<close>. In an f-string \<open>None\<close> is written \<open>None\<close>.
\<close>

definition format_size_call :: "int option \<Rightarrow> error + ustr" where
  "format_size_call sz =
     (case sz of None \<Rightarrow> Inl (Raised (lit ''TypeError'')) | Some n \<Rightarrow> format_size n)"

definition parse_mediainfo_call :: "ustr \<Rightarrow> ustr option \<Rightarrow> int option \<Rightarrow> error + ustr" where
  "parse_mediainfo_call mediainfo_output name sz =
     (case name of
        None \<Rightarrow> Inl (Raised (lit ''AttributeError''))
      | Some fname \<Rightarrow>
          (case sz of
             None \<Rightarrow> Inl (Raised (lit ''TypeError''))
           | Some fsize \<Rightarrow> parse_mediainfo mediainfo_output fname fsize))"

definition str_of :: "ustr option \<Rightarrow> ustr" where
  "str_of name = (case name of None \<Rightarrow> lit ''None'' | Some n \<Rightarrow> n)"

text \<open>
  The inner \<open>try\<close> block of \<open>process_media\<close>, from the download of the sample to the
  last message. \<open>if not downloaded_path\<close> holds for \<open>None\<close> and for the empty string.
\<close>

definition pipeline ::
  "env \<Rightarrow> message \<Rightarrow> ustr \<Rightarrow> ustr option \<Rightarrow> int option \<Rightarrow> unit io" where
  "pipeline env message temp_path name sz =
     io_bind (stream_media env message temp_path 1)
       (\<lambda>downloaded_path.
          case (case downloaded_path of
                  None \<Rightarrow> None
                | Some path \<Rightarrow> if path = [] then None else Some path) of
            None \<Rightarrow> edit_text env download_failed_text None
          | Some path \<Rightarrow>
              io_bind (edit_text env analyzing_text None)
                (\<lambda>u. io_bind (get_mediainfo env path)
                   (\<lambda>mediainfo_output.
                      if mediainfo_output = [] then edit_text env analysis_failed_text None
                      else io_bind (edit_text env generating_text None)
                             (\<lambda>u. io_bind
                                   (lift (parse_mediainfo_call mediainfo_output name sz))
                                (\<lambda>html_content.
                                   io_bind
                                     (create_telegraph_page env (lit ''Media Info'')
                                        html_content)
                                     (\<lambda>telegraph_url.
                                        case telegraph_url of
                                          Some url \<Rightarrow>
                                            io_bind (lift (format_size_call sz))
                                              (\<lambda>size_text.
                                                 edit_text env
                                                   (report_text (str_of name) size_text
                                                      url)
                                                   (Some ([0x1F4CB] @
                                                          lit '' Detailed Report'', url)))
                                        | None \<Rightarrow>
                                            edit_text env report_failed_text None))))))"

definition process_media :: "env \<Rightarrow> message \<Rightarrow> unit io" where
  "process_media env message =
     io_bind (io_call (Reply_text processing_text) (outcome (reply_text_result env)))
       (\<lambda>status_message.
          try_except
            (case get_media_from_message message of
               None \<Rightarrow> edit_text env no_media_text None
             | Some m \<Rightarrow>
                 (let name = getattr (file_name m) (lit ''Unknown'');
                      sz = getattr (file_size m) 0
                  in io_bind (io_call Named_temporary_file (tempfile_result env))
                       (\<lambda>temp_path.
                          try_finally (pipeline env message temp_path name sz)
                            (remove_temp env temp_path))))
            (\<lambda>e. io_bind (log_error (lit ''Error processing media: '') (Some e))
               (\<lambda>u. edit_text env unexpected_error_text None)))"

section \<open>Notions used in the statements\<close>

text \<open>
  A stripped line is a section header when some label of \<open>SECTION_ICONS\<close> is a prefix
  of it: the condition under which the inner loop of \<open>parse_mediainfo\<close> stops.
\<close>

definition is_header :: "ustr \<Rightarrow> bool" where
  "is_header line = list_ex (\<lambda>(section, emoji). startswith line section) SECTION_ICONS"

text \<open>The value that a header line gives to \<open>current_section\<close>.\<close>

definition display_name :: "ustr \<Rightarrow> ustr" where
  "display_name line =
     (if startswith line (lit ''Text'') then replace line (lit ''Text'') (lit ''Subtitle'')
      else line)"

text \<open>The parts once the open section, if there is one, has been flushed.\<close>

definition flushed :: "parse_state \<Rightarrow> ustr list" where
  "flushed st =
     (if current_section st \<noteq> []
      then html_parts st @ section_block (current_section st) (section_content st)
      else html_parts st)"

text \<open>The content that a run of lines without header adds to the open section.\<close>

definition section_lines :: "ustr list \<Rightarrow> ustr list" where
  "section_lines ls = map clean_value (filter (\<lambda>l. l \<noteq> []) (map strip ls))"

text \<open>The state of \<open>parse_mediainfo\<close> before its loop.\<close>

definition initial :: "ustr \<Rightarrow> ustr \<Rightarrow> parse_state" where
  "initial name size_text =
     \<lparr>html_parts = header_block name size_text, current_section = [],
      section_content = []\<rparr>"

text \<open>
  A message with a document, a message with a video that has no file name, and three
  environments, used as examples: one in which every call succeeds, one in which the
  tool prints nothing, and one in which the tool cannot be started.
\<close>

definition example_path :: ustr where
  "example_path = lit ''/tmp/tmpk3v9''"

definition example_message :: message where
  "example_message =
     Message (Some \<lparr>file_name = Value (lit ''clip.mp4''), file_size = Value 5242880\<rparr>)
       None None None"

definition nameless_message :: message where
  "nameless_message =
     Message None (Some \<lparr>file_name = Is_None, file_size = Value 5242880\<rparr>) None None"

definition env_published :: env where
  "env_published =
     \<lparr>reply_text_result = None,
      edit_text_result = (\<lambda>t. None),
      tempfile_result = Inr example_path,
      open_result = None,
      chunk_results = [Inr [0, 0, 0, 24], Inr [102, 116, 121, 112]],
      write_result = (\<lambda>c. None),
      close_result = None,
      exec_result = None,
      communicate_result = Inr (lit ''General'' @ [10] @ lit ''Format: MPEG-4'', []),
      decode = (\<lambda>b. Inr b),
      create_page_result = Inr (Some [(lit ''path'', lit ''Media-Info-11-03'')]),
      http_get_result = (\<lambda>u. Inr 200),
      unlink_result = None\<rparr>"

definition env_empty_output :: env where
  "env_empty_output = env_published\<lparr>communicate_result := Inr ([], [])\<rparr>"

definition env_missing_tool :: env where
  "env_missing_tool = env_published\<lparr>exec_result := Some (Raised (lit ''FileNotFoundError''))\<rparr>"

section \<open>Evaluation lemmas\<close>

lemmas text_defs = strip_def is_space_def startswith_def replace_def clean_value_def

lemmas report_defs =
  parse_mediainfo_def process_line_def SECTION_ICONS_def header_block_def section_block_def
  icons_get_def disclaimer_def

section \<open>Rounding to binary64 and the size formatter\<close>

lemma floorlog2_bounds:
  assumes "0 < x"
  shows "2 powi floorlog2 x \<le> x" and "x < 2 powi (floorlog2 x + 1)"
proof -
  obtain p q where pq: "quotient_of x = (p, q)" by (cases "quotient_of x")
  have q: "0 < q" using pq by (rule quotient_of_denom_pos)
  have x: "x = of_int p / of_int q" using pq by (rule quotient_of_div)
  have p: "0 < p" using assms q by (simp add: x zero_less_divide_iff)
  define bp where "bp = bitlen p"
  define bq where "bq = bitlen q"
  have bp1: "1 \<le> bp" using p by (simp add: bp_def bitlen_alt_def)
  have bq1: "1 \<le> bq" using q by (simp add: bq_def bitlen_alt_def)
  have pb: "(2::int) ^ nat (bp - 1) \<le> p" "p < 2 ^ nat bp"
    using bitlen_bounds [OF p] by (simp_all add: bp_def)
  have qb: "(2::int) ^ nat (bq - 1) \<le> q" "q < 2 ^ nat bq"
    using bitlen_bounds [OF q] by (simp_all add: bq_def)
  have pr: "(2::rat) powi (bp - 1) \<le> of_int p" "of_int p < (2::rat) powi bp"
  proof -
    have "(of_int ((2::int) ^ nat (bp - 1)) :: rat) \<le> of_int p" using pb(1) by (simp only: of_int_le_iff)
    then show "(2::rat) powi (bp - 1) \<le> of_int p" using bp1 by (simp add: power_int_nonneg_exp)
    have "(of_int p :: rat) < of_int ((2::int) ^ nat bp)" using pb(2) by (simp only: of_int_less_iff)
    then show "of_int p < (2::rat) powi bp" using bp1 by (simp add: power_int_nonneg_exp)
  qed
  have qr: "(2::rat) powi (bq - 1) \<le> of_int q" "of_int q < (2::rat) powi bq"
  proof -
    have "(of_int ((2::int) ^ nat (bq - 1)) :: rat) \<le> of_int q" using qb(1) by (simp only: of_int_le_iff)
    then show "(2::rat) powi (bq - 1) \<le> of_int q" using bq1 by (simp add: power_int_nonneg_exp)
    have "(of_int q :: rat) < of_int ((2::int) ^ nat bq)" using qb(2) by (simp only: of_int_less_iff)
    then show "of_int q < (2::rat) powi bq" using bq1 by (simp add: power_int_nonneg_exp)
  qed
  have qpos: "(0::rat) < of_int q" using q by simp
  have upper: "x < 2 powi (bp - bq + 1)"
  proof -
    have "x * of_int q = of_int p" using qpos by (simp add: x)
    also have "\<dots> < 2 powi bp" by (rule pr(2))
    also have "(2::rat) powi bp = 2 powi (bp - bq + 1) * 2 powi (bq - 1)"
      by (simp flip: power_int_add)
    also have "\<dots> \<le> 2 powi (bp - bq + 1) * of_int q"
      using qr(1) by (intro mult_left_mono) simp_all
    finally show ?thesis using qpos by simp
  qed
  have lower: "2 powi (bp - bq - 1) \<le> x"
  proof -
    have "(2::rat) powi (bp - bq - 1) * of_int q \<le> 2 powi (bp - bq - 1) * 2 powi bq"
      using qr(2) by (intro mult_left_mono) simp_all
    also have "\<dots> = 2 powi (bp - 1)" by (simp flip: power_int_add)
    also have "\<dots> \<le> of_int p" by (rule pr(1))
    also have "\<dots> = x * of_int q" using qpos by (simp add: x)
    finally show ?thesis using qpos by simp
  qed
  have fl: "floorlog2 x = (if 2 powi (bp - bq) \<le> x then bp - bq else bp - bq - 1)"
    by (simp add: floorlog2_def pq bp_def bq_def Let_def)
  show "2 powi floorlog2 x \<le> x" using lower by (simp add: fl)
  show "x < 2 powi (floorlog2 x + 1)" using upper by (auto simp: fl not_le)
qed

lemma round_half_even_of_int: "round_half_even (of_int k) = k"
  by (simp add: round_half_even_def)

lemma round_half_even_ge: "of_int k \<le> y \<Longrightarrow> k \<le> round_half_even y"
proof -
  assume "of_int k \<le> y"
  then have "k \<le> \<lfloor>y\<rfloor>" by (simp add: le_floor_iff)
  then show ?thesis by (simp add: round_half_even_def Let_def)
qed

lemma round_half_even_le: "y \<le> of_int k \<Longrightarrow> round_half_even y \<le> k"
proof -
  assume y: "y \<le> of_int k"
  show ?thesis
  proof (cases "y = of_int k")
    case True
    then show ?thesis by (simp add: round_half_even_of_int)
  next
    case False
    with y have "y < of_int k" by simp
    then have "\<lfloor>y\<rfloor> < k" by (simp add: floor_less_iff)
    then show ?thesis by (simp add: round_half_even_def Let_def)
  qed
qed

lemma pow2_less_cancel: "(2::rat) powi a < 2 powi b \<Longrightarrow> a < b"
  using power_int_increasing [of b a "2::rat"] by (cases "a < b") simp_all

lemma pow2_le_cancel: "(2::rat) powi a \<le> 2 powi b \<Longrightarrow> a \<le> b"
  using power_int_strict_increasing [of b a "2::rat"] by (cases "a \<le> b") simp_all

lemma rne_pos:
  "0 < x \<Longrightarrow>
   rne x = of_int (round_half_even (x / 2 powi (max (floorlog2 x) (- 1022) - 52))) *
           2 powi (max (floorlog2 x) (- 1022) - 52)"
  by (simp add: rne_def Let_def)

lemma rne_exact_less:
  assumes m: "0 < m" "m < 2 ^ 53" and e: "- 1074 \<le> e"
  shows "rne (of_int m * 2 powi e) = of_int m * 2 powi e"
proof -
  define x :: rat where "x = of_int m * 2 powi e"
  have xpos: "0 < x" using m by (simp add: x_def)
  define l where "l = floorlog2 x"
  define e' where "e' = max l (- 1022) - 52"
  have "2 powi l \<le> x" unfolding l_def using xpos by (rule floorlog2_bounds)
  also have "x < 2 ^ 53 * 2 powi e"
  proof -
    have "(of_int m :: rat) < of_int (2 ^ 53)" using m(2) by (simp only: of_int_less_iff)
    then show ?thesis unfolding x_def by (intro mult_strict_right_mono) simp_all
  qed
  also have "(2::rat) ^ 53 * 2 powi e = 2 powi (53 + e)" by (simp add: power_int_add)
  finally have "l < 53 + e" by (rule pow2_less_cancel)
  then have le: "e' \<le> e" using e by (simp add: e'_def)
  have "x / 2 powi e' = of_int m * 2 powi (e - e')"
    by (simp add: x_def power_int_diff)
  also have "\<dots> = of_int (m * 2 ^ nat (e - e'))"
    using le by (simp add: power_int_nonneg_exp)
  finally have "round_half_even (x / 2 powi e') = m * 2 ^ nat (e - e')"
    by (simp only: round_half_even_of_int)
  then have "rne x = of_int (m * 2 ^ nat (e - e')) * 2 powi e'"
    using rne_pos [OF xpos] by (simp add: e'_def l_def)
  also have "\<dots> = of_int m * (2 powi (e - e') * 2 powi e')"
    using le by (simp add: power_int_nonneg_exp)
  also have "\<dots> = x" by (simp add: x_def flip: power_int_add)
  finally show ?thesis by (simp add: x_def)
qed

lemma rne_exact:
  assumes m: "0 < m" "m \<le> 2 ^ 53" and e: "- 1074 \<le> e"
  shows "rne (of_int m * 2 powi e) = of_int m * 2 powi e"
proof (cases "m = 2 ^ 53")
  case False
  with m have "m < 2 ^ 53" by simp
  with m(1) show ?thesis using e by (rule rne_exact_less)
next
  case True
  have eq: "(of_int m :: rat) * 2 powi e = of_int (2 ^ 52) * 2 powi (e + 1)"
    by (simp add: True power_int_add)
  have "rne (of_int (2 ^ 52) * 2 powi (e + 1)) = of_int (2 ^ 52) * 2 powi (e + 1)"
    using e by (intro rne_exact_less) simp_all
  then show ?thesis by (simp only: eq)
qed

text \<open>The rounded value of a number not below a normal power of two.\<close>

lemma rne_normal:
  assumes x: "2 powi j \<le> x" and j: "- 1022 \<le> j"
  shows "\<exists>m e. rne x = of_int m * 2 powi e \<and> 2 ^ 52 \<le> m \<and> m \<le> 2 ^ 53 \<and> j - 52 \<le> e \<and>
           2 powi j \<le> rne x"
proof -
  have xpos: "0 < x" using x by (rule less_le_trans [rotated]) simp
  define l where "l = floorlog2 x"
  have lo: "2 powi l \<le> x" and hi: "x < 2 powi (l + 1)"
    unfolding l_def using xpos by (rule floorlog2_bounds)+
  have "2 powi j < (2::rat) powi (l + 1)" using x hi by (rule le_less_trans)
  then have jl: "j \<le> l" using pow2_less_cancel by fastforce
  define e where "e = l - 52"
  have e_eq: "max l (- 1022) - 52 = e" using jl j by (simp add: e_def)
  define y where "y = x / 2 powi e"
  define m where "m = round_half_even y"
  have "of_int (2 ^ 52) = (2::rat) powi l / 2 powi e" by (simp add: e_def flip: power_int_diff)
  also have "\<dots> \<le> y" unfolding y_def using lo by (intro divide_right_mono) simp_all
  finally have m_lo: "2 ^ 52 \<le> m" unfolding m_def by (rule round_half_even_ge)
  have "y \<le> 2 powi (l + 1) / 2 powi e"
    unfolding y_def using hi by (intro divide_right_mono) simp_all
  also have "\<dots> = of_int (2 ^ 53)" by (simp add: e_def flip: power_int_diff)
  finally have m_hi: "m \<le> 2 ^ 53" unfolding m_def by (rule round_half_even_le)
  have r: "rne x = of_int m * 2 powi e"
    using rne_pos [OF xpos] by (simp add: e_eq [unfolded l_def] m_def y_def l_def)
  have "(2::rat) powi j \<le> 2 powi l" using jl by (intro power_int_increasing) simp_all
  also have "\<dots> = of_int (2 ^ 52) * 2 powi e"
    using power_int_add [of "2::rat" 52 "l - 52"] by (simp add: e_def)
  also have "\<dots> \<le> of_int m * 2 powi e"
    using m_lo by (intro mult_right_mono) (simp_all only: of_int_le_iff zero_le_power_int zero_le_numeral)
  finally have "2 powi j \<le> rne x" by (simp only: r)
  with r m_lo m_hi jl show ?thesis unfolding e_def by (intro exI [of _ m] exI [of _ "l - 52"]) simp
qed

lemma pow_1024: "(1024::rat) ^ k = 2 powi (10 * int k)"
proof -
  have "(1024::rat) ^ k = (2 ^ 10) ^ k" by simp
  also have "\<dots> = 2 ^ (10 * k)" by (simp only: power_mult)
  also have "\<dots> = 2 powi int (10 * k)" by (simp only: power_int_of_nat)
  finally show ?thesis by simp
qed

lemma rne_div_pow:
  assumes "0 < m" "m \<le> 2 ^ 53" "- 1074 \<le> e - 10 * int k"
  shows "rne (of_int m * 2 powi e / 1024 ^ k) = of_int m * 2 powi e / 1024 ^ k"
proof -
  have "of_int m * 2 powi e / (1024::rat) ^ k = of_int m * 2 powi (e - 10 * int k)"
    by (simp add: pow_1024 power_int_diff)
  then show ?thesis using rne_exact [OF assms] by simp
qed

lemma rne_int_div:
  assumes "0 < n" "n < 2 ^ 53" "k \<le> 5"
  shows "rne (of_int n / 1024 ^ k) = of_int n / 1024 ^ k"
  using rne_div_pow [of n 0 k] assms by simp

lemma to_double_small: "\<bar>x\<bar> < 2 ^ 1024 \<Longrightarrow> rne x = x \<Longrightarrow> to_double x = Inr x"
  by (simp add: to_double_def)

lemma to_double_int:
  assumes "0 \<le> n" "n < 2 ^ 53"
  shows "to_double (of_int n) = Inr (of_int n)"
proof (rule to_double_small)
  have "(of_int n :: rat) < of_int (2 ^ 53)" using assms(2) by (simp only: of_int_less_iff)
  also have "\<dots> < 2 ^ 1024" by simp
  finally show "\<bar>of_int n :: rat\<bar> < 2 ^ 1024" using assms(1) by simp
  show "rne (of_int n :: rat) = of_int n"
  proof (cases "n = 0")
    case True
    then show ?thesis by (simp add: rne_def)
  next
    case False
    with assms rne_int_div [of n 0] show ?thesis by simp
  qed
qed

lemma to_double_int_div:
  assumes "0 < n" "n < 2 ^ 53"
  shows "to_double (of_int n / 1024) = Inr (of_int n / 1024)"
proof (rule to_double_small)
  have "(of_int n :: rat) < of_int (2 ^ 53)" using assms(2) by (simp only: of_int_less_iff)
  also have "\<dots> < 2 ^ 1024" by simp
  finally show "\<bar>of_int n / 1024 :: rat\<bar> < 2 ^ 1024" using assms(1) by simp
  show "rne (of_int n / 1024 :: rat) = of_int n / 1024"
    using rne_int_div [of n 1] assms by simp
qed

lemma format_size_B:
  assumes "0 \<le> n" "n < 1024"
  shows "format_size n = Inr (format_2f (of_int n) @ lit '' B'')"
  using assms to_double_int [of n] by (simp add: format_size_def UNITS_def)

lemma format_size_KB:
  assumes "1024 \<le> n" "n < 1024 ^ 2"
  shows "format_size n = Inr (format_2f (of_int n / 1024) @ lit '' KB'')"
  using assms to_double_int_div [of n] by (simp add: format_size_def UNITS_def)

lemma rne_int_div2:
  assumes "0 < n" "n < 2 ^ 53"
  shows "rne (of_int n / 1048576) = of_int n / 1048576"
  using rne_int_div [of n 2] assms by simp

lemma rne_int_div3:
  assumes "0 < n" "n < 2 ^ 53"
  shows "rne (of_int n / 1073741824) = of_int n / 1073741824"
  using rne_int_div [of n 3] assms by simp

lemma rne_int_div4:
  assumes "0 < n" "n < 2 ^ 53"
  shows "rne (of_int n / 1099511627776) = of_int n / 1099511627776"
  using rne_int_div [of n 4] assms by simp

lemma format_size_MB:
  assumes "1024 ^ 2 \<le> n" "n < 1024 ^ 3"
  shows "format_size n = Inr (format_2f (of_int n / 1024 ^ 2) @ lit '' MB'')"
  using assms by (simp add: format_size_def UNITS_def to_double_int_div rne_int_div2)

lemma format_size_GB:
  assumes "1024 ^ 3 \<le> n" "n < 1024 ^ 4"
  shows "format_size n = Inr (format_2f (of_int n / 1024 ^ 3) @ lit '' GB'')"
  using assms
  by (simp add: format_size_def UNITS_def to_double_int_div rne_int_div2 rne_int_div3)

lemma format_size_TB:
  assumes "1024 ^ 4 \<le> n" "n < 1024 ^ 5"
  shows "format_size n = Inr (format_2f (of_int n / 1024 ^ 4) @ lit '' TB'')"
  using assms
  by (simp add: format_size_def UNITS_def to_double_int_div rne_int_div2 rne_int_div3
      rne_int_div4)

lemma format_size_loop_large:
  assumes r: "r = of_int m * 2 powi e" and m: "0 < m" "m \<le> 2 ^ 53" and e: "- 12 \<le> e"
    and big: "2 powi 40 \<le> r"
  shows "format_size_loop [lit ''KB'', lit ''MB'', lit ''GB'', lit ''TB''] (PyFloat r) =
         Inr (format_2f (r / 1024 ^ 4) @ lit '' PB'')"
proof -
  have big': "1099511627776 \<le> r" using big by simp
  have d1: "rne (r / 1024) = r / 1024"
    using rne_div_pow [of m e 1] m e by (simp add: r)
  have d2: "rne (r / 1048576) = r / 1048576"
    using rne_div_pow [of m e 2] m e by (simp add: r)
  have d3: "rne (r / 1073741824) = r / 1073741824"
    using rne_div_pow [of m e 3] m e by (simp add: r)
  have d4: "rne (r / 1099511627776) = r / 1099511627776"
    using rne_div_pow [of m e 4] m e by (simp add: r)
  show ?thesis using big' by (simp add: d1 d2 d3 d4)
qed

lemma format_size_PB:
  assumes "1024 ^ 5 \<le> n"
  shows "format_size n =
         (case to_double (of_int n / 1024) of
            Inl err \<Rightarrow> Inl err
          | Inr r \<Rightarrow> Inr (format_2f (r / 1024 ^ 4) @ lit '' PB''))"
proof -
  have "(of_int (1024 ^ 5) :: rat) \<le> of_int n" using assms by (simp only: of_int_le_iff)
  then have x: "2 powi 40 \<le> (of_int n / 1024 :: rat)" by simp
  from rne_normal [OF x] obtain m e where
    r: "rne (of_int n / 1024) = of_int m * 2 powi e" and m: "2 ^ 52 \<le> m" "m \<le> 2 ^ 53"
    and e: "40 - 52 \<le> e" and big: "2 powi 40 \<le> rne (of_int n / 1024)"
    by auto
  have loop: "format_size_loop [lit ''KB'', lit ''MB'', lit ''GB'', lit ''TB'']
                (PyFloat (rne (of_int n / 1024))) =
              Inr (format_2f (rne (of_int n / 1024) / 1024 ^ 4) @ lit '' PB'')"
    using r _ m(2) _ big by (rule format_size_loop_large) (use m e in simp_all)
  have n: "\<not> n < 1024" using assms by simp
  show ?thesis
  proof (cases "to_double (of_int n / 1024)")
    case (Inl err)
    then show ?thesis using n by (simp add: format_size_def UNITS_def)
  next
    case (Inr r')
    then have r': "r' = rne (of_int n / 1024)"
      by (simp add: to_double_def Let_def split: if_splits)
    have "format_size n =
          format_size_loop [lit ''KB'', lit ''MB'', lit ''GB'', lit ''TB''] (PyFloat r')"
      unfolding format_size_def UNITS_def
      by (simp only: format_size_loop.simps(2) [of _ _ "PyInt n"] lt_1024.simps n if_False
          truediv_1024.simps Inr sum.case)
    then show ?thesis by (simp only: Inr sum.case loop r')
  qed
qed

lemma rne_upper:
  assumes x: "1 \<le> x" and k: "x < 2 powi k"
  shows "rne x \<le> 2 powi k"
proof -
  have xpos: "0 < x" using x by simp
  define l where "l = floorlog2 x"
  have lo: "2 powi l \<le> x" and hi: "x < 2 powi (l + 1)"
    unfolding l_def using xpos by (rule floorlog2_bounds)+
  have "(2::rat) powi 0 < 2 powi (l + 1)" using x hi by simp
  then have l0: "0 \<le> l" using pow2_less_cancel by fastforce
  have "2 powi l < (2::rat) powi k" using lo k by (rule le_less_trans)
  then have lk: "l + 1 \<le> k" using pow2_less_cancel by fastforce
  define e where "e = l - 52"
  have e_eq: "max l (- 1022) - 52 = e" using l0 by (simp add: e_def)
  have "x / 2 powi e \<le> 2 powi (l + 1) / 2 powi e"
    using hi by (intro divide_right_mono) simp_all
  also have "\<dots> = of_int (2 ^ 53)" by (simp add: e_def flip: power_int_diff)
  finally have m_hi: "round_half_even (x / 2 powi e) \<le> 2 ^ 53" by (rule round_half_even_le)
  have "rne x = of_int (round_half_even (x / 2 powi e)) * 2 powi e"
    using rne_pos [OF xpos] by (simp add: e_eq [unfolded l_def] l_def)
  also have "\<dots> \<le> of_int (2 ^ 53) * 2 powi e"
    using m_hi by (intro mult_right_mono) (simp_all only: of_int_le_iff zero_le_power_int zero_le_numeral)
  also have "\<dots> = 2 powi (l + 1)"
    using power_int_add [of "2::rat" 53 "l - 52"] by (simp add: e_def add.commute)
  also have "\<dots> \<le> 2 powi k" using lk by (intro power_int_increasing) simp_all
  finally show ?thesis .
qed

lemma to_double_finite:
  assumes "1024 \<le> n" "n < 2 ^ 1033"
  shows "\<exists>r. to_double (of_int n / 1024) = Inr r"
proof -
  have "(of_int 1024 :: rat) \<le> of_int n" using assms(1) by (simp only: of_int_le_iff)
  then have one: "1 \<le> (of_int n / 1024 :: rat)" by simp
  have "(of_int n :: rat) < of_int (2 ^ 1033)" using assms(2) by (simp only: of_int_less_iff)
  then have "(of_int n / 1024 :: rat) < 2 powi 1023" by simp
  with one have up: "rne (of_int n / 1024) \<le> 2 powi 1023" by (rule rne_upper)
  have "2 powi 0 \<le> (of_int n / 1024 :: rat)" using one by simp
  from rne_normal [OF this] have "0 \<le> rne (of_int n / 1024)" by auto
  with up show ?thesis by (simp add: to_double_def Let_def)
qed

lemma format_size_overflow:
  assumes "2 ^ 1034 \<le> n"
  shows "format_size n = Inl OverflowError"
proof -
  have "(of_int (2 ^ 1034) :: rat) \<le> of_int n" using assms by (simp only: of_int_le_iff)
  then have "2 powi 1024 \<le> (of_int n / 1024 :: rat)" by simp
  from rne_normal [OF this] have "2 powi 1024 \<le> rne (of_int n / 1024)" by auto
  then have "2 ^ 1024 \<le> \<bar>rne (of_int n / 1024)\<bar>" by simp
  then have "to_double (of_int n / 1024) = Inl OverflowError"
    by (simp only: to_double_def Let_def if_True)
  moreover have "1024 ^ 5 \<le> n" using assms by simp
  ultimately show ?thesis by (simp only: format_size_PB sum.case)
qed

lemma format_size_0: "format_size 0 = Inr (lit ''0.00 B'')"
proof -
  have "format_2f 0 = lit ''0.00''" by code_simp
  then show ?thesis using format_size_B [of 0] by simp
qed

lemma format_size_1536: "format_size 1536 = Inr (lit ''1.50 KB'')"
proof -
  have "format_2f (1536 / 1024) = lit ''1.50''" by code_simp
  then show ?thesis using format_size_KB [of 1536] by simp
qed

lemma format_size_5242880: "format_size 5242880 = Inr (lit ''5.00 MB'')"
proof -
  have "format_2f (5242880 / 1024 ^ 2) = lit ''5.00''" by code_simp
  then show ?thesis using format_size_MB [of 5242880] by simp
qed

lemma format_size_1073741824: "format_size 1073741824 = Inr (lit ''1.00 GB'')"
proof -
  have "format_2f (1073741824 / 1024 ^ 3) = lit ''1.00''" by code_simp
  then show ?thesis using format_size_GB [of 1073741824] by simp
qed

text \<open>
  Above \<open>2 ^ 53\<close> the first division rounds: the quotient of 9147936743096321 by
  \<open>1024 ^ 5\<close> is a little more than 8.125 and would be written 8.13, the binary64 value
  is 8.125 and is written 8.12.
\<close>

lemma format_size_rounds_first:
  "format_size 9147936743096321 = Inr (lit ''8.12 PB'') \<and>
   format_2f (9147936743096321 / 1024 ^ 5) = lit ''8.13''"
proof -
  have r: "rne (9147936743096321 / 1024) = 8933531975680" by code_simp
  have "to_double (9147936743096321 / 1024) = Inr 8933531975680"
    by (simp add: to_double_def r)
  moreover have "format_2f (8933531975680 / 1024 ^ 4) = lit ''8.12''" by code_simp
  ultimately have "format_size 9147936743096321 = Inr (lit ''8.12 PB'')"
    using format_size_PB [of 9147936743096321] by simp
  moreover have "format_2f (9147936743096321 / 1024 ^ 5) = lit ''8.13''" by code_simp
  ultimately show ?thesis by (rule conjI)
qed

text \<open>
  C5 says that the unit is the smallest one for which the displayed value is below
  1024, that the value is the quotient written with two decimals, and that this holds
  for every byte count. The loop tests the running value before it is rounded to two
  decimals: 1048575 bytes are 1023.999 KB, below 1024, and are displayed as
  \<open>1024.00 KB\<close>, although the value displayed in MB, 1.00, is below 1024. Above
  \<open>2 ^ 53\<close> the value written is that of the rounded quotient (8.12 where the exact
  quotient gives 8.13), and for \<open>2 ^ 1034\<close> bytes there is no result.
\<close>

theorem format_size_displays_1024:
  "format_size 1048575 = Inr (lit ''1024.00 KB'') \<and>
   format_2f (1048575 / 1024) = lit ''1024.00'' \<and>
   format_2f (1048575 / 1024 ^ 2) = lit ''1.00'' \<and>
   format_size 9147936743096321 = Inr (lit ''8.12 PB'') \<and>
   format_2f (9147936743096321 / 1024 ^ 5) = lit ''8.13'' \<and>
   format_size (2 ^ 1034) = Inl OverflowError"
proof -
  have a: "format_2f (1048575 / 1024) = lit ''1024.00''" by code_simp
  have b: "format_2f (1048575 / 1024 ^ 2) = lit ''1.00''" by code_simp
  have c: "format_size 1048575 = Inr (lit ''1024.00 KB'')"
    using format_size_KB [of 1048575] a by simp
  have d: "format_size (2 ^ 1034) = Inl OverflowError"
    by (rule format_size_overflow) simp
  from a b c d format_size_rounds_first show ?thesis by (intro conjI) simp_all
qed

text \<open>
  C5, amended. For a byte count \<open>n \<ge> 0\<close> the unit is the first of B, KB, MB, GB, TB for
  which the running quotient of \<open>n\<close> by the power of 1024 is below 1024, and the value
  is that exact quotient written with two decimals (ties to even), which can read
  \<open>1024.00\<close>. From \<open>1024 ^ 5\<close> on the unit is PB and nothing is divided further: the
  value is the binary64 rounding of \<open>n / 1024\<close> divided by \<open>1024 ^ 4\<close>, which is the exact
  quotient below \<open>2 ^ 53\<close>; a result is returned below \<open>2 ^ 1033\<close>, and from \<open>2 ^ 1034\<close> on
  the division raises \<open>OverflowError\<close>. The three values of the specification hold.
\<close>

theorem format_size_units:
  assumes "0 \<le> n"
  shows "(n < 1024 \<longrightarrow> format_size n = Inr (format_2f (of_int n) @ lit '' B'')) \<and>
         (1024 \<le> n \<and> n < 1024 ^ 2 \<longrightarrow>
            format_size n = Inr (format_2f (of_int n / 1024) @ lit '' KB'')) \<and>
         (1024 ^ 2 \<le> n \<and> n < 1024 ^ 3 \<longrightarrow>
            format_size n = Inr (format_2f (of_int n / 1024 ^ 2) @ lit '' MB'')) \<and>
         (1024 ^ 3 \<le> n \<and> n < 1024 ^ 4 \<longrightarrow>
            format_size n = Inr (format_2f (of_int n / 1024 ^ 3) @ lit '' GB'')) \<and>
         (1024 ^ 4 \<le> n \<and> n < 1024 ^ 5 \<longrightarrow>
            format_size n = Inr (format_2f (of_int n / 1024 ^ 4) @ lit '' TB'')) \<and>
         (1024 ^ 5 \<le> n \<longrightarrow>
            format_size n =
              (case to_double (of_int n / 1024) of
                 Inl err \<Rightarrow> Inl err
               | Inr r \<Rightarrow> Inr (format_2f (r / 1024 ^ 4) @ lit '' PB''))) \<and>
         (1024 ^ 5 \<le> n \<and> n < 2 ^ 53 \<longrightarrow>
            format_size n = Inr (format_2f (of_int n / 1024 ^ 5) @ lit '' PB'')) \<and>
         (1024 ^ 5 \<le> n \<and> n < 2 ^ 1033 \<longrightarrow>
            (\<exists>r. format_size n = Inr (format_2f r @ lit '' PB''))) \<and>
         (2 ^ 1034 \<le> n \<longrightarrow> format_size n = Inl OverflowError) \<and>
         format_size 0 = Inr (lit ''0.00 B'') \<and>
         format_size 1536 = Inr (lit ''1.50 KB'') \<and>
         format_size 1073741824 = Inr (lit ''1.00 GB'')"
proof (intro conjI impI)
  show "format_size n = Inr (format_2f (of_int n) @ lit '' B'')" if "n < 1024"
    using assms that by (rule format_size_B)
  show "format_size n = Inr (format_2f (of_int n / 1024) @ lit '' KB'')"
    if "1024 \<le> n \<and> n < 1024 ^ 2"
    using that by (intro format_size_KB) simp_all
  show "format_size n = Inr (format_2f (of_int n / 1024 ^ 2) @ lit '' MB'')"
    if "1024 ^ 2 \<le> n \<and> n < 1024 ^ 3"
    using that by (intro format_size_MB) simp_all
  show "format_size n = Inr (format_2f (of_int n / 1024 ^ 3) @ lit '' GB'')"
    if "1024 ^ 3 \<le> n \<and> n < 1024 ^ 4"
    using that by (intro format_size_GB) simp_all
  show "format_size n = Inr (format_2f (of_int n / 1024 ^ 4) @ lit '' TB'')"
    if "1024 ^ 4 \<le> n \<and> n < 1024 ^ 5"
    using that by (intro format_size_TB) simp_all
  show "format_size n =
      (case to_double (of_int n / 1024) of
         Inl err \<Rightarrow> Inl err
       | Inr r \<Rightarrow> Inr (format_2f (r / 1024 ^ 4) @ lit '' PB''))"
    if "1024 ^ 5 \<le> n"
    using that by (rule format_size_PB)
  show "format_size n = Inr (format_2f (of_int n / 1024 ^ 5) @ lit '' PB'')"
    if "1024 ^ 5 \<le> n \<and> n < 2 ^ 53"
  proof -
    from that have "to_double (of_int n / 1024) = Inr (of_int n / 1024)"
      by (intro to_double_int_div) simp_all
    with that show ?thesis by (simp add: format_size_PB)
  qed
  show "\<exists>r. format_size n = Inr (format_2f r @ lit '' PB'')"
    if "1024 ^ 5 \<le> n \<and> n < 2 ^ 1033"
  proof -
    from that have "\<exists>r. to_double (of_int n / 1024) = Inr r"
      by (intro to_double_finite) simp_all
    then obtain r where "to_double (of_int n / 1024) = Inr r" ..
    with that have "format_size n = Inr (format_2f (r / 1024 ^ 4) @ lit '' PB'')"
      by (simp only: format_size_PB sum.case)
    then show ?thesis ..
  qed
  show "format_size n = Inl OverflowError" if "2 ^ 1034 \<le> n"
    using that by (rule format_size_overflow)
  show "format_size 0 = Inr (lit ''0.00 B'')" by (rule format_size_0)
  show "format_size 1536 = Inr (lit ''1.50 KB'')" by (rule format_size_1536)
  show "format_size 1073741824 = Inr (lit ''1.00 GB'')" by (rule format_size_1073741824)
qed

theorem format_size_units_witness:
  "(0::int) \<le> 5242880 \<and> format_size 5242880 = Inr (format_2f (5242880 / 1024 ^ 2) @ lit '' MB'')"
  using format_size_units [of 5242880] by simp

section \<open>The scan of the report formatter\<close>

lemma header_loop_eq:
  "header_loop items line st =
     (if list_ex (\<lambda>(section, emoji). startswith line section) items
      then (True, \<lparr>html_parts = flushed st, current_section = display_name line,
                   section_content = []\<rparr>)
      else (False, st))"
  by (induction items) (auto simp: flushed_def display_name_def)

lemma process_line_blank: "strip raw = [] \<Longrightarrow> process_line st raw = st"
  by (simp add: process_line_def)

lemma process_line_header:
  "strip raw \<noteq> [] \<Longrightarrow> is_header (strip raw) \<Longrightarrow>
   process_line st raw =
     \<lparr>html_parts = flushed st, current_section = display_name (strip raw),
      section_content = []\<rparr>"
  by (simp add: process_line_def header_loop_eq is_header_def)

lemma process_line_content:
  "strip raw \<noteq> [] \<Longrightarrow> \<not> is_header (strip raw) \<Longrightarrow>
   process_line st raw =
     (if current_section st \<noteq> []
      then st\<lparr>section_content := section_content st @ [clean_value (strip raw)]\<rparr>
      else st)"
  by (simp add: process_line_def header_loop_eq is_header_def)

lemma foldl_no_header:
  "current_section st = [] \<Longrightarrow> \<forall>l\<in>set ls. \<not> is_header (strip l) \<Longrightarrow>
   foldl process_line st ls = st"
proof (induction ls arbitrary: st)
  case Nil
  then show ?case by simp
next
  case (Cons l ls)
  have "process_line st l = st"
  proof (cases "strip l = []")
    case True
    then show ?thesis by (rule process_line_blank)
  next
    case False
    with Cons.prems show ?thesis by (simp add: process_line_content)
  qed
  with Cons show ?case by simp
qed

lemma is_header_nonempty: "is_header l \<Longrightarrow> l \<noteq> []"
  by (auto simp: is_header_def SECTION_ICONS_def startswith_def)

lemma display_name_nonempty: "l \<noteq> [] \<Longrightarrow> display_name l \<noteq> []"
  by (cases l) (auto simp: display_name_def replace_def)

lemma foldl_content:
  "current_section st \<noteq> [] \<Longrightarrow> \<forall>l\<in>set ls. \<not> is_header (strip l) \<Longrightarrow>
   foldl process_line st ls = st\<lparr>section_content := section_content st @ section_lines ls\<rparr>"
proof (induction ls arbitrary: st)
  case Nil
  then show ?case by (simp add: section_lines_def)
next
  case (Cons l ls)
  show ?case
  proof (cases "strip l = []")
    case True
    with Cons show ?thesis by (simp add: process_line_blank section_lines_def)
  next
    case False
    with Cons show ?thesis by (simp add: process_line_content section_lines_def)
  qed
qed

lemma parse_mediainfo_lines:
  "format_size fsize = Inr size_text \<Longrightarrow>
   parse_mediainfo text name fsize =
     (let st = foldl process_line (initial name size_text) (split_nl text)
      in Inr (join [10]
           ((if current_section st \<noteq> [] \<and> section_content st \<noteq> [] then flushed st
             else html_parts st) @ [disclaimer])))"
  by (simp add: parse_mediainfo_def initial_def flushed_def Let_def)

lemma last_section:
  assumes split: "split_nl text = before @ h # cs"
    and hdr: "is_header (strip h)"
    and cont: "\<forall>c\<in>set cs. \<not> is_header (strip c)"
    and sz: "format_size fsize = Inr size_text"
  shows "parse_mediainfo text name fsize =
         Inr (join [10]
           (flushed (foldl process_line (initial name size_text) before) @
            (if section_lines cs = [] then []
             else section_block (display_name (strip h)) (section_lines cs)) @
            [disclaimer]))"
proof -
  let ?st1 = "foldl process_line (initial name size_text) before"
  let ?st2 = "\<lparr>html_parts = flushed ?st1, current_section = display_name (strip h),
               section_content = []\<rparr>"
  have ne: "strip h \<noteq> []" using hdr by (rule is_header_nonempty)
  have open_ne: "current_section ?st2 \<noteq> []" using ne by (simp add: display_name_nonempty)
  have "foldl process_line (initial name size_text) (split_nl text) =
        foldl process_line (process_line ?st1 h) cs"
    by (simp add: split)
  also have "process_line ?st1 h = ?st2" using ne hdr by (rule process_line_header)
  also have "foldl process_line ?st2 cs = ?st2\<lparr>section_content := section_lines cs\<rparr>"
    using foldl_content [OF open_ne cont] by simp
  finally show ?thesis using open_ne
    by (simp add: parse_mediainfo_lines [OF sz] flushed_def)
qed

lemma text_block:
  "section_block (display_name (lit ''Text'')) content =
     [lit ''<h4>'' @ [0x1F520] @ lit '' Subtitle</h4>'', lit ''<pre>'', join [10] content,
      lit ''</pre><br>'']"
  by (simp add: display_name_def section_block_def icons_get_def SECTION_ICONS_def text_defs)

lemma text_is_header: "is_header (lit ''Text'')"
  by (simp add: is_header_def SECTION_ICONS_def startswith_def)

section \<open>The worked example of the report formatter\<close>

text \<open>
  C4. For the raw input of the five lines \<open>General\<close>, \<open>Format: MPEG-4\<close>, \<open>Video\<close>,
  \<open>Format: AVC\<close>, \<open>Width: 1920\<close>, with display name \<open>clip.mp4\<close> and size 5242880, the
  output consists, in this order, of the header block showing \<open>clip.mp4\<close> and
  \<open>5.00 MB\<close>, a General section whose content is exactly the line
  \<open>Format: MPEG-4\<close>, a Video section whose content is exactly the lines
  \<open>Format: AVC\<close> and \<open>Width: 1920\<close>, and the trailing disclaimer; there is no other
  section block.
\<close>

theorem example_report:
  "parse_mediainfo
     (join [10] [lit ''General'', lit ''Format: MPEG-4'', lit ''Video'', lit ''Format: AVC'',
                 lit ''Width: 1920''])
     (lit ''clip.mp4'') 5242880 =
   Inr (join [10]
     [lit ''<h3>'' @ [0x1F4C1] @ lit '' File Information</h3>'',
      lit ''<p><strong>File Name:</strong> <em>clip.mp4</em></p>'',
      lit ''<p><strong>File Size:</strong> <em>5.00 MB</em></p>'',
      lit ''<hr>'',
      lit ''<h4>'' @ [0x1F5D2] @ lit '' General</h4>'',
      lit ''<pre>'',
      lit ''Format: MPEG-4'',
      lit ''</pre><br>'',
      lit ''<h4>'' @ [0x1F39E] @ lit '' Video</h4>'',
      lit ''<pre>'',
      lit ''Format: AVC'',
      lit ''Width: 1920'',
      lit ''</pre><br>'',
      lit ''<p><em>Note: Analysis is based on initial portions of the file.</em></p>''])"
  by (simp add: report_defs text_defs format_size_5242880)

section \<open>Sections without content\<close>

text \<open>
  C1 says that a section header line with no content line before the next header
  line, or before the end of the input, leaves no block in the output. The flush at
  the end of the input has this guard (\<open>current_section and section_content\<close>); the
  flush inside the loop tests \<open>current_section\<close> only. For the input of the lines
  \<open>General\<close>, \<open>Video\<close>, \<open>Format: AVC\<close> the output has a General block with an empty
  preformatted element.
\<close>

theorem empty_section_rendered:
  "parse_mediainfo (join [10] [lit ''General'', lit ''Video'', lit ''Format: AVC''])
     (lit ''clip.mp4'') 0 =
   Inr (join [10]
     [lit ''<h3>'' @ [0x1F4C1] @ lit '' File Information</h3>'',
      lit ''<p><strong>File Name:</strong> <em>clip.mp4</em></p>'',
      lit ''<p><strong>File Size:</strong> <em>0.00 B</em></p>'',
      lit ''<hr>'',
      lit ''<h4>'' @ [0x1F5D2] @ lit '' General</h4>'',
      lit ''<pre>'',
      [],
      lit ''</pre><br>'',
      lit ''<h4>'' @ [0x1F39E] @ lit '' Video</h4>'',
      lit ''<pre>'',
      lit ''Format: AVC'',
      lit ''</pre><br>'',
      lit ''<p><em>Note: Analysis is based on initial portions of the file.</em></p>''])"
  by (simp add: report_defs text_defs format_size_0)

section \<open>Escaping of angle brackets\<close>

text \<open>
  C2 says that the display file name, every section heading line and every section
  content line are rendered with \<open><\<close> and \<open>>\<close> replaced by \<open>&lt;\<close> and \<open>&gt;\<close>.
  \<open>clean_value\<close> is applied to the file name and to the content lines, not to the
  heading: for the header line \<open>General <b>\<close> the sub-heading contains \<open><b>\<close> as it
  is, while the name \<open>a<b>.mp4\<close> and the content line \<open>Title: <i>\<close> are escaped.
\<close>

theorem heading_not_escaped:
  "parse_mediainfo (join [10] [lit ''General <b>'', lit ''Title: <i>''])
     (lit ''a<b>.mp4'') 0 =
   Inr (join [10]
     [lit ''<h3>'' @ [0x1F4C1] @ lit '' File Information</h3>'',
      lit ''<p><strong>File Name:</strong> <em>a&lt;b&gt;.mp4</em></p>'',
      lit ''<p><strong>File Size:</strong> <em>0.00 B</em></p>'',
      lit ''<hr>'',
      lit ''<h4>'' @ [0x1F4C4] @ lit '' General <b></h4>'',
      lit ''<pre>'',
      lit ''Title: &lt;i&gt;'',
      lit ''</pre><br>'',
      lit ''<p><em>Note: Analysis is based on initial portions of the file.</em></p>''])"
  by (simp add: report_defs text_defs format_size_0)

section \<open>Icons\<close>

text \<open>
  C3 says that a section whose header line was matched by a recognized label carries
  the icon of that label, and that the default glyph appears only for a label outside
  the recognized set. The icon is looked up with the whole header line as the key,
  not with the label that matched: the header line \<open>Audio #1\<close>, matched by the label
  \<open>Audio\<close>, is rendered with the default glyph.
\<close>

theorem numbered_header_default_icon:
  "parse_mediainfo (join [10] [lit ''Audio #1'', lit ''Format: AAC'']) (lit ''clip.mp4'') 0 =
   Inr (join [10]
     [lit ''<h3>'' @ [0x1F4C1] @ lit '' File Information</h3>'',
      lit ''<p><strong>File Name:</strong> <em>clip.mp4</em></p>'',
      lit ''<p><strong>File Size:</strong> <em>0.00 B</em></p>'',
      lit ''<hr>'',
      lit ''<h4>'' @ [0x1F4C4] @ lit '' Audio #1</h4>'',
      lit ''<pre>'',
      lit ''Format: AAC'',
      lit ''</pre><br>'',
      lit ''<p><em>Note: Analysis is based on initial portions of the file.</em></p>''])"
  by (simp add: report_defs text_defs format_size_0)

section \<open>Input without section header\<close>

text \<open>
  C6. When no line of the input, after trimming, starts with a recognized label (the
  empty input and an input of blank lines are such inputs), the output is the header
  block followed by the disclaimer, whatever \<open>format_size\<close> gives for the size. More
  generally the lines before the first section header leave no trace: the output is
  that of the input without them.
\<close>

theorem lines_without_header_dropped:
  assumes "\<forall>l\<in>set before. \<not> is_header (strip l)"
  shows "(split_nl text = before \<longrightarrow>
            parse_mediainfo text name fsize =
            map_sum id (\<lambda>size_text. join [10] (header_block name size_text @ [disclaimer]))
              (format_size fsize)) \<and>
         (\<forall>text'. split_nl text = before @ split_nl text' \<longrightarrow>
            parse_mediainfo text name fsize = parse_mediainfo text' name fsize)"
proof (intro conjI impI allI)
  assume "split_nl text = before"
  with assms show "parse_mediainfo text name fsize =
      map_sum id (\<lambda>size_text. join [10] (header_block name size_text @ [disclaimer]))
        (format_size fsize)"
    by (cases "format_size fsize") (simp_all add: parse_mediainfo_def foldl_no_header)
next
  fix text'
  assume "split_nl text = before @ split_nl text'"
  with assms show "parse_mediainfo text name fsize = parse_mediainfo text' name fsize"
    by (cases "format_size fsize") (simp_all add: parse_mediainfo_def foldl_no_header)
qed

theorem lines_without_header_dropped_witness:
  "parse_mediainfo [] (lit ''clip.mp4'') 0 =
     Inr (join [10] (header_block (lit ''clip.mp4'') (lit ''0.00 B'') @ [disclaimer])) \<and>
   parse_mediainfo (join [10] [lit ''  '', [], [9]]) (lit ''clip.mp4'') 0 =
     Inr (join [10] (header_block (lit ''clip.mp4'') (lit ''0.00 B'') @ [disclaimer])) \<and>
   parse_mediainfo (join [10] [lit ''Format: AVC'', lit ''General'', lit ''Width: 1920''])
     (lit ''clip.mp4'') 0 =
   parse_mediainfo (join [10] [lit ''General'', lit ''Width: 1920'']) (lit ''clip.mp4'') 0"
proof -
  have a: "\<forall>l\<in>set [[]]. \<not> is_header (strip l)"
    by (simp add: is_header_def SECTION_ICONS_def text_defs)
  have b: "\<forall>l\<in>set [lit ''  '', [], [9]]. \<not> is_header (strip l)"
    by (simp add: is_header_def SECTION_ICONS_def text_defs)
  have c: "\<forall>l\<in>set [lit ''Format: AVC'']. \<not> is_header (strip l)"
    by (simp add: is_header_def SECTION_ICONS_def text_defs)
  let ?long = "join [10] [lit ''Format: AVC'', lit ''General'', lit ''Width: 1920'']"
  let ?short = "join [10] [lit ''General'', lit ''Width: 1920'']"
  have first: "parse_mediainfo [] (lit ''clip.mp4'') 0 =
      Inr (join [10] (header_block (lit ''clip.mp4'') (lit ''0.00 B'') @ [disclaimer]))"
    using lines_without_header_dropped [OF a, of "[]" "lit ''clip.mp4''" 0]
    by (simp add: format_size_0)
  have second: "parse_mediainfo (join [10] [lit ''  '', [], [9]]) (lit ''clip.mp4'') 0 =
      Inr (join [10] (header_block (lit ''clip.mp4'') (lit ''0.00 B'') @ [disclaimer]))"
    using lines_without_header_dropped [OF b, of "join [10] [lit ''  '', [], [9]]"
        "lit ''clip.mp4''" 0]
    by (simp add: format_size_0)
  have "\<forall>text'. split_nl ?long = [lit ''Format: AVC''] @ split_nl text' \<longrightarrow>
          parse_mediainfo ?long (lit ''clip.mp4'') 0 = parse_mediainfo text' (lit ''clip.mp4'') 0"
    using lines_without_header_dropped [OF c, of ?long "lit ''clip.mp4''" 0]
    by (rule conjunct2)
  then have "split_nl ?long = [lit ''Format: AVC''] @ split_nl ?short \<longrightarrow>
          parse_mediainfo ?long (lit ''clip.mp4'') 0 = parse_mediainfo ?short (lit ''clip.mp4'') 0"
    by (rule spec)
  moreover have "split_nl ?long = [lit ''Format: AVC''] @ split_nl ?short" by simp
  ultimately have third:
    "parse_mediainfo ?long (lit ''clip.mp4'') 0 = parse_mediainfo ?short (lit ''clip.mp4'') 0"
    by (rule mp)
  from first second third show ?thesis by (intro conjI)
qed

section \<open>The Text header\<close>

text \<open>
  A section that is closed by another header line: the flush inside the loop renders
  it with the content that its lines gave, whatever its label is.
\<close>

lemma section_before_header:
  assumes hdr: "is_header (strip h)"
    and cont: "\<forall>c\<in>set cs. \<not> is_header (strip c)"
    and next_hdr: "is_header (strip h')"
  shows "foldl process_line st (h # cs @ [h']) =
         \<lparr>html_parts = flushed st @
            section_block (display_name (strip h)) (section_lines cs),
          current_section = display_name (strip h'), section_content = []\<rparr>"
proof -
  let ?st1 = "\<lparr>html_parts = flushed st, current_section = display_name (strip h),
               section_content = []\<rparr>"
  have ne: "strip h \<noteq> []" using hdr by (rule is_header_nonempty)
  have ne': "strip h' \<noteq> []" using next_hdr by (rule is_header_nonempty)
  have open_ne: "current_section ?st1 \<noteq> []" using ne by (simp add: display_name_nonempty)
  have "foldl process_line st (h # cs @ [h']) =
        process_line (foldl process_line (process_line st h) cs) h'"
    by simp
  also have "process_line st h = ?st1" using ne hdr by (rule process_line_header)
  also have "foldl process_line ?st1 cs = ?st1\<lparr>section_content := section_lines cs\<rparr>"
    using foldl_content [OF open_ne cont] by simp
  finally show ?thesis
    using open_ne by (simp add: process_line_header [OF ne' next_hdr] flushed_def)
qed

text \<open>
  The icon of a header line that starts with \<open>Text\<close>: the line is renamed, and the
  renamed line is a key of \<open>SECTION_ICONS\<close> only when the line is \<open>Text\<close> itself.
\<close>

lemma replace_from_empty: "new \<noteq> [] \<Longrightarrow> replace_from old new s = [] \<longleftrightarrow> s = []"
  by (cases s) simp_all

lemma text_prefix_icon:
  assumes "startswith line (lit ''Text'')"
  shows "icons_get (display_name line) d = (if line = lit ''Text'' then [0x1F520] else d)"
proof -
  from assms obtain rest where line: "line = lit ''Text'' @ rest"
    by (metis append_take_drop_id startswith_def)
  define r where "r = replace_from (lit ''Text'') (lit ''Subtitle'') rest"
  have shown: "display_name line = lit ''Subtitle'' @ r"
    by (simp add: display_name_def replace_def startswith_def line r_def)
  have "r = [] \<longleftrightarrow> rest = []"
    unfolding r_def by (rule replace_from_empty) simp
  moreover have "line = lit ''Text'' \<longleftrightarrow> rest = []" by (simp add: line)
  moreover have "icons_get (lit ''Subtitle'' @ r) d = (if r = [] then [0x1F520] else d)"
    by (simp add: icons_get_def SECTION_ICONS_def)
  ultimately show ?thesis by (simp only: shown)
qed

text \<open>
  A header line that is the label \<open>Text\<close> itself is recognized as a section header: it
  closes what came before and opens a section. The lines after it, up to the end of
  the input, are the content of that section, the same content \<open>section_lines cs\<close> that
  they give after any other header line, and the section is rendered with the display
  label \<open>Subtitle\<close> and the icon U+1F520.
\<close>

lemma text_header_section:
  assumes "split_nl text = before @ h # cs"
    and "strip h = lit ''Text''"
    and "\<forall>c\<in>set cs. \<not> is_header (strip c)"
    and "format_size fsize = Inr size_text"
  shows "is_header (strip h) \<and>
         parse_mediainfo text name fsize =
           Inr (join [10]
             (flushed (foldl process_line (initial name size_text) before) @
              (if section_lines cs = [] then []
               else [lit ''<h4>'' @ [0x1F520] @ lit '' Subtitle</h4>'', lit ''<pre>'',
                     join [10] (section_lines cs), lit ''</pre><br>'']) @
              [disclaimer])) \<and>
         (\<forall>h' text'. is_header (strip h') \<and> split_nl text' = before @ h' # cs \<longrightarrow>
            parse_mediainfo text' name fsize =
              Inr (join [10]
                (flushed (foldl process_line (initial name size_text) before) @
                 (if section_lines cs = [] then []
                  else section_block (display_name (strip h')) (section_lines cs)) @
                 [disclaimer])))"
proof (intro conjI allI impI)
  show hdr: "is_header (strip h)" using assms(2) text_is_header by simp
  show "parse_mediainfo text name fsize =
      Inr (join [10]
        (flushed (foldl process_line (initial name size_text) before) @
         (if section_lines cs = [] then []
          else [lit ''<h4>'' @ [0x1F520] @ lit '' Subtitle</h4>'', lit ''<pre>'',
                join [10] (section_lines cs), lit ''</pre><br>'']) @
         [disclaimer]))"
    using last_section [OF assms(1) hdr assms(3) assms(4)] text_block [of "section_lines cs"]
    by (simp only: assms(2))
next
  fix h' text'
  assume "is_header (strip h') \<and> split_nl text' = before @ h' # cs"
  then show "parse_mediainfo text' name fsize =
      Inr (join [10]
        (flushed (foldl process_line (initial name size_text) before) @
         (if section_lines cs = [] then []
          else section_block (display_name (strip h')) (section_lines cs)) @
         [disclaimer]))"
    using last_section [OF _ _ assms(3) assms(4)] by blast
qed

lemma text_header_section_example:
  "parse_mediainfo (join [10] [lit ''General'', lit ''Format: Matroska'', lit ''Text'',
                               lit ''Format: UTF-8'', lit ''Language: <en>''])
     (lit ''clip.mkv'') 0 =
   Inr (join [10]
     [lit ''<h3>'' @ [0x1F4C1] @ lit '' File Information</h3>'',
      lit ''<p><strong>File Name:</strong> <em>clip.mkv</em></p>'',
      lit ''<p><strong>File Size:</strong> <em>0.00 B</em></p>'',
      lit ''<hr>'',
      lit ''<h4>'' @ [0x1F5D2] @ lit '' General</h4>'',
      lit ''<pre>'',
      lit ''Format: Matroska'',
      lit ''</pre><br>'',
      lit ''<h4>'' @ [0x1F520] @ lit '' Subtitle</h4>'',
      lit ''<pre>'',
      lit ''Format: UTF-8'',
      lit ''Language: &lt;en&gt;'',
      lit ''</pre><br>'',
      lit ''<p><em>Note: Analysis is based on initial portions of the file.</em></p>''])"
proof -
  have a: "split_nl (join [10] [lit ''General'', lit ''Format: Matroska'', lit ''Text'',
                                lit ''Format: UTF-8'', lit ''Language: <en>'']) =
           [lit ''General'', lit ''Format: Matroska''] @ lit ''Text'' #
           [lit ''Format: UTF-8'', lit ''Language: <en>'']"
    by simp
  have b: "strip (lit ''Text'') = lit ''Text''" by (simp add: text_defs)
  have c: "\<forall>c\<in>set [lit ''Format: UTF-8'', lit ''Language: <en>'']. \<not> is_header (strip c)"
    by (simp add: is_header_def SECTION_ICONS_def text_defs)
  show ?thesis
    using text_header_section [OF a b c format_size_0, of "lit ''clip.mkv''"]
    by (simp add: initial_def flushed_def section_lines_def process_line_def
        SECTION_ICONS_def header_block_def section_block_def icons_get_def disclaimer_def
        text_defs)
qed

text \<open>
  C7 says that a header line bearing the label \<open>Text\<close> is recognized by the \<open>Text\<close>
  prefix rule, that the lines after it attach to its section, and that the section is
  rendered with the display label \<open>Subtitle\<close> and the icon U+1F520. For the header
  line \<open>Text #1\<close>, which the prefix rule recognizes, the first two hold and the label
  is renamed, but the icon is the default glyph: it is looked up with the renamed
  line \<open>Subtitle #1\<close> as the key, as for the header line \<open>Audio #1\<close> in C3.
\<close>

theorem numbered_text_header_default_icon:
  "parse_mediainfo
     (join [10] [lit ''Text #1'', lit ''Format: UTF-8'', lit ''Menu'',
                 lit ''00:00:00.000 : Chapter 1''])
     (lit ''clip.mkv'') 0 =
   Inr (join [10]
     [lit ''<h3>'' @ [0x1F4C1] @ lit '' File Information</h3>'',
      lit ''<p><strong>File Name:</strong> <em>clip.mkv</em></p>'',
      lit ''<p><strong>File Size:</strong> <em>0.00 B</em></p>'',
      lit ''<hr>'',
      lit ''<h4>'' @ [0x1F4C4] @ lit '' Subtitle #1</h4>'',
      lit ''<pre>'',
      lit ''Format: UTF-8'',
      lit ''</pre><br>'',
      lit ''<h4>'' @ [0x1F5C3] @ lit '' Menu</h4>'',
      lit ''<pre>'',
      lit ''00:00:00.000 : Chapter 1'',
      lit ''</pre><br>'',
      lit ''<p><em>Note: Analysis is based on initial portions of the file.</em></p>''])"
  by (simp add: report_defs text_defs format_size_0)

section \<open>The pipeline\<close>

lemmas io_defs =
  io_return_def lift_def io_call_def outcome_def io_bind_def try_except_def try_finally_def
  log_error_def log_warning_def edit_text_def remove_temp_def

lemma get_mediainfo_returns: "\<exists>t s. get_mediainfo env p = (t, Inr s)"
  by (auto simp: get_mediainfo_def io_defs split: prod.splits sum.splits option.splits)

lemma get_mediainfo_exec_raises:
  "exec_result env = Some e \<Longrightarrow>
   get_mediainfo env p =
     ([Exec_mediainfo p, Log_error (lit ''Error getting mediainfo: '') (Some e)], Inr [])"
  by (simp add: get_mediainfo_def io_defs)

lemma get_mediainfo_communicate_raises:
  "exec_result env = None \<Longrightarrow> communicate_result env = Inl e \<Longrightarrow>
   get_mediainfo env p =
     ([Exec_mediainfo p, Communicate, Log_error (lit ''Error getting mediainfo: '') (Some e)],
      Inr [])"
  by (simp add: get_mediainfo_def io_defs)

lemma get_mediainfo_no_page: "Create_page title content \<notin> set (fst (get_mediainfo env p))"
  by (auto simp: get_mediainfo_def io_defs split: prod.splits sum.splits option.splits if_splits)

lemma stream_loop_no_page:
  "Create_page title content \<notin> set (fst (stream_loop env limit chunks n))"
  by (induction env limit chunks n rule: stream_loop.induct)
    (auto split: option.splits prod.splits)

lemma stream_media_no_page:
  "Create_page title content \<notin> set (fst (stream_media env message temp_path limit))"
  using stream_loop_no_page [of title content env limit "chunk_results env" 0]
  by (auto simp: stream_media_def io_defs split: prod.splits sum.splits option.splits)

lemma remove_temp_events:
  "remove_temp env temp_path =
     (Unlink temp_path #
      (case unlink_result env of
         None \<Rightarrow> []
       | Some e \<Rightarrow> [Log_error (lit ''Error removing temp file: '') (Some e)]),
      Inr ())"
  by (simp add: io_defs split: option.splits)

lemma pipeline_empty_analysis:
  assumes "stream_media env message temp_path 1 = (ts, Inr (Some path))"
    and "path \<noteq> []"
    and "edit_text_result env analyzing_text = None"
    and "get_mediainfo env path = (tm, Inr [])"
  shows "pipeline env message temp_path name sz =
         (ts @ [Edit_text analyzing_text None] @ tm @ [Edit_text analysis_failed_text None],
          outcome (edit_text_result env analysis_failed_text))"
  using assms by (simp add: pipeline_def io_defs)

lemma process_media_created:
  assumes "reply_text_result env = None"
    and "get_media_from_message message = Some m"
    and "tempfile_result env = Inr temp_path"
    and "pipeline env message temp_path (getattr (file_name m) (lit ''Unknown''))
           (getattr (file_size m) 0) = (tp, r)"
  shows "process_media env message =
         ([Reply_text processing_text, Named_temporary_file] @ tp @
          fst (remove_temp env temp_path) @
          (case r of
             Inl e \<Rightarrow> [Log_error (lit ''Error processing media: '') (Some e),
                       Edit_text unexpected_error_text None]
           | Inr u \<Rightarrow> []),
          (case r of
             Inl e \<Rightarrow> outcome (edit_text_result env unexpected_error_text)
           | Inr u \<Rightarrow> Inr ()))"
  using assms
  by (cases r) (simp_all add: process_media_def io_defs Let_def split: option.splits)

lemma process_media_empty_analysis:
  assumes "reply_text_result env = None"
    and "get_media_from_message message = Some m"
    and "tempfile_result env = Inr temp_path"
    and "stream_media env message temp_path 1 = (ts, Inr (Some path))"
    and "path \<noteq> []"
    and "edit_text_result env analyzing_text = None"
    and "get_mediainfo env path = (tm, Inr [])"
  shows "process_media env message =
         ([Reply_text processing_text, Named_temporary_file] @ ts @
          [Edit_text analyzing_text None] @ tm @ [Edit_text analysis_failed_text None] @
          fst (remove_temp env temp_path) @
          (case edit_text_result env analysis_failed_text of
             None \<Rightarrow> []
           | Some e \<Rightarrow> [Log_error (lit ''Error processing media: '') (Some e),
                        Edit_text unexpected_error_text None]),
          (case edit_text_result env analysis_failed_text of
             None \<Rightarrow> Inr ()
           | Some e \<Rightarrow> outcome (edit_text_result env unexpected_error_text)))"
  using process_media_created [OF assms(1-3) pipeline_empty_analysis [OF assms(4-7)]]
  by (simp add: outcome_def split: option.splits)

lemma stream_loop_no_edit:
  "Edit_text t b \<notin> set (fst (stream_loop env limit chunks n))"
  by (induction env limit chunks n rule: stream_loop.induct)
    (auto split: option.splits prod.splits)

lemma stream_media_no_edit:
  "Edit_text t b \<notin> set (fst (stream_media env message temp_path limit))"
  using stream_loop_no_edit [of t b env limit "chunk_results env" 0]
  by (auto simp: stream_media_def io_defs split: prod.splits sum.splits option.splits)

lemma get_mediainfo_no_edit: "Edit_text t b \<notin> set (fst (get_mediainfo env p))"
  by (auto simp: get_mediainfo_def io_defs split: prod.splits sum.splits option.splits if_splits)

lemma texts_differ:
  "analyzing_text \<noteq> unexpected_error_text" "analysis_failed_text \<noteq> unexpected_error_text"
  by (simp_all add: analyzing_text_def analysis_failed_text_def unexpected_error_text_def)

text \<open>
  C8. When the pipeline has reached the analysis and \<open>get_mediainfo\<close> returns the empty
  string, \<open>process_media\<close> edits the status message to the analysis-failure text and
  does nothing more than remove the temporary file: the events are exactly those
  below, and no page is created. (Should that edit itself raise, the handler logs and
  sends the unexpected-error text; still no page is created.)
\<close>

theorem empty_analysis_not_published:
  assumes "reply_text_result env = None"
    and "get_media_from_message message = Some m"
    and "tempfile_result env = Inr temp_path"
    and "stream_media env message temp_path 1 = (ts, Inr (Some path))"
    and "path \<noteq> []"
    and "edit_text_result env analyzing_text = None"
    and "get_mediainfo env path = (tm, Inr [])"
  shows "process_media env message =
           ([Reply_text processing_text, Named_temporary_file] @ ts @
            [Edit_text analyzing_text None] @ tm @ [Edit_text analysis_failed_text None] @
            fst (remove_temp env temp_path) @
            (case edit_text_result env analysis_failed_text of
               None \<Rightarrow> []
             | Some e \<Rightarrow> [Log_error (lit ''Error processing media: '') (Some e),
                          Edit_text unexpected_error_text None]),
            (case edit_text_result env analysis_failed_text of
               None \<Rightarrow> Inr ()
             | Some e \<Rightarrow> outcome (edit_text_result env unexpected_error_text))) \<and>
         (\<forall>title content. Create_page title content \<notin> set (fst (process_media env message)))"
proof (intro conjI allI)
  show eq: "process_media env message =
           ([Reply_text processing_text, Named_temporary_file] @ ts @
            [Edit_text analyzing_text None] @ tm @ [Edit_text analysis_failed_text None] @
            fst (remove_temp env temp_path) @
            (case edit_text_result env analysis_failed_text of
               None \<Rightarrow> []
             | Some e \<Rightarrow> [Log_error (lit ''Error processing media: '') (Some e),
                          Edit_text unexpected_error_text None]),
            (case edit_text_result env analysis_failed_text of
               None \<Rightarrow> Inr ()
             | Some e \<Rightarrow> outcome (edit_text_result env unexpected_error_text)))"
    using assms by (rule process_media_empty_analysis)
  fix title content
  have "Create_page title content \<notin> set ts"
    using stream_media_no_page [of title content env message temp_path 1] by (simp add: assms(4))
  moreover have "Create_page title content \<notin> set tm"
    using get_mediainfo_no_page [of title content env path] by (simp add: assms(7))
  ultimately show "Create_page title content \<notin> set (fst (process_media env message))"
    by (simp add: eq remove_temp_events split: option.splits)
qed

lemmas example_defs =
  example_message_def env_published_def env_empty_output_def env_missing_tool_def

lemma example_media:
  "get_media_from_message example_message =
     Some \<lparr>file_name = Value (lit ''clip.mp4''), file_size = Value 5242880\<rparr>"
  by (simp add: example_message_def get_media_from_message_def py_or_def)

lemma example_stream:
  "stream_media env_empty_output example_message example_path 1 =
     ([Open_file example_path, Next_chunk, Write_chunk [0, 0, 0, 24], Close_file],
      Inr (Some example_path))"
  "stream_media env_missing_tool example_message example_path 1 =
     ([Open_file example_path, Next_chunk, Write_chunk [0, 0, 0, 24], Close_file],
      Inr (Some example_path))"
  by (simp_all add: stream_media_def example_defs py_or_def io_defs)

theorem empty_analysis_not_published_witness:
  "process_media env_empty_output example_message =
     ([Reply_text processing_text, Named_temporary_file, Open_file example_path,
       Next_chunk, Write_chunk [0, 0, 0, 24], Close_file, Edit_text analyzing_text None,
       Exec_mediainfo example_path, Communicate,
       Edit_text analysis_failed_text None, Unlink example_path],
      Inr ()) \<and>
   (\<forall>title content.
      Create_page title content \<notin> set (fst (process_media env_empty_output example_message)))"
proof -
  have a: "reply_text_result env_empty_output = None" by (simp add: example_defs)
  have c: "tempfile_result env_empty_output = Inr example_path"
    by (simp add: example_defs)
  have e: "edit_text_result env_empty_output analyzing_text = None" by (simp add: example_defs)
  have f: "get_mediainfo env_empty_output example_path =
             ([Exec_mediainfo example_path, Communicate], Inr [])"
    by (simp add: get_mediainfo_def example_defs io_defs)
  have g: "edit_text_result env_empty_output analysis_failed_text = None"
    by (simp add: example_defs)
  have h: "unlink_result env_empty_output = None" by (simp add: example_defs)
  have p: "example_path \<noteq> []" by (simp add: example_path_def)
  show ?thesis
    using empty_analysis_not_published [OF a example_media c example_stream(1) p e f]
    by (simp add: g h remove_temp_events)
qed

text \<open>
  C9. Once the temporary file has been created, whatever the pipeline does afterwards
  and however it ends (with a value or with an exception), the next event after the
  events of the pipeline is the removal of that file; the events of the handler for an
  exception come after it.
\<close>

theorem temp_file_removed:
  assumes "reply_text_result env = None"
    and "get_media_from_message message = Some m"
    and "tempfile_result env = Inr temp_path"
  shows "fst (process_media env message) =
           [Reply_text processing_text, Named_temporary_file] @
           fst (pipeline env message temp_path (getattr (file_name m) (lit ''Unknown''))
                  (getattr (file_size m) 0)) @
           Unlink temp_path #
           (case unlink_result env of
              None \<Rightarrow> []
            | Some e \<Rightarrow> [Log_error (lit ''Error removing temp file: '') (Some e)]) @
           (case snd (pipeline env message temp_path (getattr (file_name m) (lit ''Unknown''))
                        (getattr (file_size m) 0)) of
              Inl e \<Rightarrow> [Log_error (lit ''Error processing media: '') (Some e),
                        Edit_text unexpected_error_text None]
            | Inr u \<Rightarrow> []) \<and>
         Unlink temp_path \<in> set (fst (process_media env message))"
proof -
  let ?p = "pipeline env message temp_path (getattr (file_name m) (lit ''Unknown''))
      (getattr (file_size m) 0)"
  have p: "?p = (fst ?p, snd ?p)" by simp
  have "fst (remove_temp env temp_path) =
      Unlink temp_path #
      (case unlink_result env of
         None \<Rightarrow> []
       | Some e \<Rightarrow> [Log_error (lit ''Error removing temp file: '') (Some e)])"
    by (simp only: remove_temp_events fst_conv)
  with process_media_created [OF assms p] show ?thesis by simp
qed

theorem temp_file_removed_witness:
  "reply_text_result env_published = None \<and>
   get_media_from_message example_message =
     Some \<lparr>file_name = Value (lit ''clip.mp4''), file_size = Value 5242880\<rparr> \<and>
   tempfile_result env_published = Inr example_path \<and>
   Unlink example_path \<in> set (fst (process_media env_published example_message)) \<and>
   Unlink example_path \<in> set (fst (process_media env_missing_tool example_message))"
proof -
  have a: "reply_text_result env_published = None" "reply_text_result env_missing_tool = None"
    by (simp_all add: example_defs)
  have c: "tempfile_result env_published = Inr example_path"
    "tempfile_result env_missing_tool = Inr example_path"
    by (simp_all add: example_defs)
  show ?thesis
    using temp_file_removed [OF a(1) example_media c(1)]
      temp_file_removed [OF a(2) example_media c(2)] a(1) c(1) example_media
    by blast
qed

text \<open>
  One of the paths that end with an exception: a video without file name. The value
  \<open>None\<close> reaches \<open>parse_mediainfo\<close>, which raises; the temporary file is removed and
  the requester gets the unexpected-error text.
\<close>

lemma nameless_media_trace:
  "process_media env_published nameless_message =
     ([Reply_text processing_text, Named_temporary_file, Open_file example_path, Next_chunk,
       Write_chunk [0, 0, 0, 24], Close_file, Edit_text analyzing_text None,
       Exec_mediainfo example_path, Communicate, Edit_text generating_text None,
       Unlink example_path,
       Log_error (lit ''Error processing media: '') (Some (Raised (lit ''AttributeError''))),
       Edit_text unexpected_error_text None],
      Inr ())"
  by (simp add: process_media_def pipeline_def stream_media_def get_mediainfo_def
      get_media_from_message_def parse_mediainfo_call_def getattr_def py_or_def
      nameless_message_def env_published_def example_path_def io_defs Let_def)

text \<open>
  C10. \<open>get_mediainfo\<close> always returns a string and never an exception; when starting
  the tool or communicating with it raises, the string is empty. In \<open>process_media\<close>
  such a failure is then answered with the analysis-failure text, and the
  unexpected-error text is not sent (the edit of the status message succeeding).
\<close>

theorem analysis_tool_failure:
  "(\<exists>t s. get_mediainfo env p = (t, Inr s)) \<and>
   (exec_result env = Some e \<longrightarrow>
      get_mediainfo env p =
        ([Exec_mediainfo p, Log_error (lit ''Error getting mediainfo: '') (Some e)], Inr [])) \<and>
   (exec_result env = None \<and> communicate_result env = Inl e \<longrightarrow>
      get_mediainfo env p =
        ([Exec_mediainfo p, Communicate,
          Log_error (lit ''Error getting mediainfo: '') (Some e)], Inr [])) \<and>
   (reply_text_result env = None \<and> get_media_from_message message = Some m \<and>
    tempfile_result env = Inr temp_path \<and>
    stream_media env message temp_path 1 = (ts, Inr (Some p)) \<and> p \<noteq> [] \<and>
    edit_text_result env analyzing_text = None \<and>
    (exec_result env = Some e \<or> exec_result env = None \<and> communicate_result env = Inl e) \<and>
    edit_text_result env analysis_failed_text = None \<longrightarrow>
      process_media env message =
        ([Reply_text processing_text, Named_temporary_file] @ ts @
         [Edit_text analyzing_text None] @ fst (get_mediainfo env p) @
         [Edit_text analysis_failed_text None] @ fst (remove_temp env temp_path),
         Inr ()) \<and>
      Edit_text unexpected_error_text None \<notin> set (fst (process_media env message)))"
proof (intro conjI impI)
  show "\<exists>t s. get_mediainfo env p = (t, Inr s)" by (rule get_mediainfo_returns)
  show "get_mediainfo env p =
      ([Exec_mediainfo p, Log_error (lit ''Error getting mediainfo: '') (Some e)], Inr [])"
    if "exec_result env = Some e"
    using that by (rule get_mediainfo_exec_raises)
  show "get_mediainfo env p =
      ([Exec_mediainfo p, Communicate, Log_error (lit ''Error getting mediainfo: '') (Some e)],
       Inr [])"
    if "exec_result env = None \<and> communicate_result env = Inl e"
    using that by (simp add: get_mediainfo_communicate_raises)
  assume h: "reply_text_result env = None \<and> get_media_from_message message = Some m \<and>
    tempfile_result env = Inr temp_path \<and>
    stream_media env message temp_path 1 = (ts, Inr (Some p)) \<and> p \<noteq> [] \<and>
    edit_text_result env analyzing_text = None \<and>
    (exec_result env = Some e \<or> exec_result env = None \<and> communicate_result env = Inl e) \<and>
    edit_text_result env analysis_failed_text = None"
  then have g: "get_mediainfo env p = (fst (get_mediainfo env p), Inr [])"
    by (auto simp: get_mediainfo_exec_raises get_mediainfo_communicate_raises)
  from h have eq: "process_media env message =
      ([Reply_text processing_text, Named_temporary_file] @ ts @
       [Edit_text analyzing_text None] @ fst (get_mediainfo env p) @
       [Edit_text analysis_failed_text None] @ fst (remove_temp env temp_path),
       Inr ())"
    using process_media_empty_analysis [of env message m temp_path ts p, OF _ _ _ _ _ _ g]
    by simp
  then show "process_media env message =
      ([Reply_text processing_text, Named_temporary_file] @ ts @
       [Edit_text analyzing_text None] @ fst (get_mediainfo env p) @
       [Edit_text analysis_failed_text None] @ fst (remove_temp env temp_path),
       Inr ())" .
  have "Edit_text unexpected_error_text None \<notin> set ts"
    using stream_media_no_edit [of unexpected_error_text None env message temp_path 1] h
    by simp
  then show "Edit_text unexpected_error_text None \<notin> set (fst (process_media env message))"
    using get_mediainfo_no_edit [of unexpected_error_text None env p] texts_differ
    by (simp add: eq remove_temp_events split: option.splits)
qed

theorem analysis_tool_failure_witness:
  "get_mediainfo env_missing_tool example_path =
     ([Exec_mediainfo example_path,
       Log_error (lit ''Error getting mediainfo: '') (Some (Raised (lit ''FileNotFoundError'')))],
      Inr []) \<and>
   process_media env_missing_tool example_message =
     ([Reply_text processing_text, Named_temporary_file, Open_file example_path,
       Next_chunk, Write_chunk [0, 0, 0, 24], Close_file, Edit_text analyzing_text None,
       Exec_mediainfo example_path,
       Log_error (lit ''Error getting mediainfo: '') (Some (Raised (lit ''FileNotFoundError''))),
       Edit_text analysis_failed_text None, Unlink example_path],
      Inr ()) \<and>
   Edit_text unexpected_error_text None \<notin>
     set (fst (process_media env_missing_tool example_message))"
proof -
  have a: "reply_text_result env_missing_tool = None" by (simp add: example_defs)
  have c: "tempfile_result env_missing_tool = Inr example_path"
    by (simp add: example_defs)
  have d: "edit_text_result env_missing_tool analyzing_text = None"
    "edit_text_result env_missing_tool analysis_failed_text = None"
    by (simp_all add: example_defs)
  have x: "exec_result env_missing_tool = Some (Raised (lit ''FileNotFoundError''))"
    by (simp add: example_defs)
  have u: "unlink_result env_missing_tool = None" by (simp add: example_defs)
  have p: "example_path \<noteq> []" by (simp add: example_path_def)
  let ?ts = "[Open_file example_path, Next_chunk, Write_chunk [0, 0, 0, 24], Close_file]"
  let ?m = "\<lparr>file_name = Value (lit ''clip.mp4''), file_size = Value 5242880\<rparr>"
  note t = analysis_tool_failure [of env_missing_tool example_path
      "Raised (lit ''FileNotFoundError'')" example_message ?m example_path ?ts]
  have g: "get_mediainfo env_missing_tool example_path =
      ([Exec_mediainfo example_path,
        Log_error (lit ''Error getting mediainfo: '')
          (Some (Raised (lit ''FileNotFoundError'')))], Inr [])"
    using t x by blast
  have "process_media env_missing_tool example_message =
      ([Reply_text processing_text, Named_temporary_file] @ ?ts @
       [Edit_text analyzing_text None] @ fst (get_mediainfo env_missing_tool example_path) @
       [Edit_text analysis_failed_text None] @ fst (remove_temp env_missing_tool example_path),
       Inr ()) \<and>
      Edit_text unexpected_error_text None \<notin>
        set (fst (process_media env_missing_tool example_message))"
    using t a c d x example_media example_stream(2) p by blast
  then have eq: "process_media env_missing_tool example_message =
      ([Reply_text processing_text, Named_temporary_file] @ ?ts @
       [Edit_text analyzing_text None] @ fst (get_mediainfo env_missing_tool example_path) @
       [Edit_text analysis_failed_text None] @ fst (remove_temp env_missing_tool example_path),
       Inr ())"
    and nin: "Edit_text unexpected_error_text None \<notin>
        set (fst (process_media env_missing_tool example_message))"
    by blast+
  from eq have "process_media env_missing_tool example_message =
     ([Reply_text processing_text, Named_temporary_file, Open_file example_path,
       Next_chunk, Write_chunk [0, 0, 0, 24], Close_file, Edit_text analyzing_text None,
       Exec_mediainfo example_path,
       Log_error (lit ''Error getting mediainfo: '') (Some (Raised (lit ''FileNotFoundError''))),
       Edit_text analysis_failed_text None, Unlink example_path],
      Inr ())"
    by (simp add: g u remove_temp_events)
  with g nin show ?thesis by blast
qed

end
